theory Spec2Isabelle
  imports Main "HOL-Library.Word"
begin

unbundle bit_operations_syntax

section \<open>The C library functions the assemblers call\<close>

text \<open>
  The assemblers (\<^verbatim>\<open>lsasm.c\<close>, its 32-bit successor \<^verbatim>\<open>lsasm_v2.c\<close> and the
  \<^verbatim>\<open>AssemblerTool\<close> class of \<^verbatim>\<open>gate_computer_toolset.cpp\<close>) work on C strings with
  \<^verbatim>\<open>isspace\<close>, \<^verbatim>\<open>isalpha\<close>, \<^verbatim>\<open>toupper\<close>, \<^verbatim>\<open>atoi\<close>, \<^verbatim>\<open>strtol\<close>, \<^verbatim>\<open>strchr\<close> and
  \<^verbatim>\<open>sscanf\<close>. They are modelled here in the "C" locale. A C string is a \<open>string\<close>
  (the characters before the terminating NUL).
\<close>

definition isspace :: "char \<Rightarrow> bool" where
  "isspace c \<longleftrightarrow>
     c = CHR '' '' \<or> c = CHR 0x09 \<or> c = CHR 0x0A \<or> c = CHR 0x0B \<or> c = CHR 0x0C \<or> c = CHR 0x0D"

definition isdigit :: "char \<Rightarrow> bool" where
  "isdigit c \<longleftrightarrow> (48::nat) \<le> of_char c \<and> of_char c \<le> (57::nat)"

definition isalpha :: "char \<Rightarrow> bool" where
  "isalpha c \<longleftrightarrow>
     ((65::nat) \<le> of_char c \<and> of_char c \<le> (90::nat)) \<or>
     ((97::nat) \<le> of_char c \<and> of_char c \<le> (122::nat))"

definition isalnum :: "char \<Rightarrow> bool" where
  "isalnum c \<longleftrightarrow> isalpha c \<or> isdigit c"

definition toupper :: "char \<Rightarrow> char" where
  "toupper c =
     (case map_of (zip ''abcdefghijklmnopqrstuvwxyz'' ''ABCDEFGHIJKLMNOPQRSTUVWXYZ'') c of
        None \<Rightarrow> c
      | Some u \<Rightarrow> u)"

text \<open>
  \<open>c_at s i\<close> is the C expression \<^verbatim>\<open>s[i]\<close>: the character at index \<open>i\<close>, and the
  terminating NUL at index \<open>length s\<close>. The token buffers of the assemblers are
  uninitialised stack arrays, so C leaves \<^verbatim>\<open>s[i]\<close> past the terminator indeterminate;
  the model reads NUL there.
\<close>

definition c_at :: "string \<Rightarrow> nat \<Rightarrow> char" where
  "c_at s i = (if i < length s then s ! i else CHR 0x00)"

text \<open>
  \<open>digit_value\<close> is the value of a character as a digit of \<^verbatim>\<open>strtol\<close> (letters count
  from 10, in either case).
\<close>

definition digit_value :: "char \<Rightarrow> nat option" where
  "digit_value c =
     (let n = (of_char c :: nat) in
      if 48 \<le> n \<and> n \<le> 57 then Some (n - 48)
      else if 97 \<le> n \<and> n \<le> 122 then Some (n - 87)
      else if 65 \<le> n \<and> n \<le> 90 then Some (n - 55)
      else None)"

fun strtol_digits :: "nat \<Rightarrow> int \<Rightarrow> string \<Rightarrow> int" where
  "strtol_digits base acc [] = acc"
| "strtol_digits base acc (c # cs) =
     (case digit_value c of
        None \<Rightarrow> acc
      | Some d \<Rightarrow> if d < base then strtol_digits base (acc * int base + int d) cs else acc)"

text \<open>
  \<^verbatim>\<open>strtol(nptr, NULL, base)\<close>: leading white space, an optional sign, for base 16 an
  optional \<^verbatim>\<open>0x\<close> prefix, then the longest run of digits of the base; 0 when there is
  none. The value is the mathematical one: the model agrees with C for every numeral that
  fits the C type \<^verbatim>\<open>int\<close> (C clamps at \<^verbatim>\<open>LONG_MAX\<close>, and the assemblers' cast to \<^verbatim>\<open>int\<close>
  then depends on the platform).  \<^verbatim>\<open>atoi(nptr)\<close> is \<^verbatim>\<open>(int)strtol(nptr, NULL, 10)\<close>.
\<close>

definition strtol :: "string \<Rightarrow> nat \<Rightarrow> int" where
  "strtol nptr base =
     (let s = dropWhile isspace nptr;
          neg = (c_at s 0 = CHR ''-'');
          s1 = (if c_at s 0 = CHR ''-'' \<or> c_at s 0 = CHR ''+'' then drop 1 s else s);
          s2 = (if base = 16 \<and> c_at s1 0 = CHR ''0'' \<and> (c_at s1 1 = CHR ''x'' \<or> c_at s1 1 = CHR ''X'')
                then drop 2 s1 else s1);
          v = strtol_digits base 0 s2
      in if neg then - v else v)"

definition atoi :: "string \<Rightarrow> int" where
  "atoi nptr = strtol nptr 10"

text \<open>
  \<^verbatim>\<open>sscanf(s, "%s %s ...", ...)\<close> with \<open>n\<close> conversions: each \<^verbatim>\<open>%s\<close> skips white space and
  reads the longest run of non-space characters. \<open>sscanf_s n s\<close> is the list of tokens
  stored; its length is the number of conversions made, which is what the assemblers
  compare with \<open>n\<close> (C returns \<^verbatim>\<open>EOF\<close> rather than 0 when the input ends before the first
  token; both differ from the \<open>n\<close> expected). The assemblers read each token into a
  16-byte buffer (32 bytes for the mnemonic) with no field width: a longer token
  overruns the buffer, which C leaves undefined; the model keeps the whole token.
\<close>

fun sscanf_s :: "nat \<Rightarrow> string \<Rightarrow> string list" where
  "sscanf_s 0 s = []"
| "sscanf_s (Suc n) s =
     (let s1 = dropWhile isspace s in
      if s1 = [] then []
      else takeWhile (\<lambda>c. \<not> isspace c) s1 # sscanf_s n (dropWhile (\<lambda>c. \<not> isspace c) s1))"

section \<open>Comment stripping\<close>

text \<open>
  \<^verbatim>\<open>void strip_comments(char* line, int* inMultiline)\<close> (identical in \<^verbatim>\<open>lsasm.c\<close> and
  \<^verbatim>\<open>lsasm_v2.c\<close>) rewrites \<open>line\<close> in place and updates the flag; the model returns the
  new line and the new flag. The loop index \<open>i\<close> is the position in the input, so the
  recursion is on the rest of the input from \<open>i\<close>; the test \<^verbatim>\<open>i < len - 1\<close> is the
  pattern with two characters left. The characters kept are written at \<open>j\<close>: they are
  the result list. On \<^verbatim>\<open>//\<close> the function returns at once, outside a block comment.
\<close>

fun strip_comments :: "string \<Rightarrow> bool \<Rightarrow> string \<times> bool" where
  "strip_comments [] inMultiline = ([], inMultiline)"
| "strip_comments [c] True = strip_comments [] True"
| "strip_comments (c # d # ds) True =
     (if c = CHR ''*'' \<and> d = CHR ''/'' then strip_comments ds False
      else strip_comments (d # ds) True)"
| "strip_comments [c] False = ([c], False)"
| "strip_comments (c # d # ds) False =
     (if c = CHR ''/'' \<and> d = CHR ''*'' then strip_comments ds True
      else if c = CHR ''/'' \<and> d = CHR ''/'' then ([], False)
      else (c # fst (strip_comments (d # ds) False), snd (strip_comments (d # ds) False)))"

text \<open>
  \<^verbatim>\<open>AssemblerTool::stripComments(std::string& line, bool& inMultiline)\<close> of
  \<^verbatim>\<open>gate_computer_toolset.cpp\<close>: the same loop, appending to \<open>result\<close> and leaving the
  loop with \<^verbatim>\<open>break\<close> on \<^verbatim>\<open>//\<close>.
\<close>

fun stripComments :: "string \<Rightarrow> bool \<Rightarrow> string \<times> bool" where
  "stripComments [] inMultiline = ([], inMultiline)"
| "stripComments [c] True = stripComments [] True"
| "stripComments (c # d # ds) True =
     (if c = CHR ''*'' \<and> d = CHR ''/'' then stripComments ds False
      else stripComments (d # ds) True)"
| "stripComments [c] False = ([c], False)"
| "stripComments (c # d # ds) False =
     (if c = CHR ''/'' \<and> d = CHR ''*'' then stripComments ds True
      else if c = CHR ''/'' \<and> d = CHR ''/'' then ([], False)
      else (c # fst (stripComments (d # ds) False), snd (stripComments (d # ds) False)))"

text \<open>
  A line has no comment opener when no \<^verbatim>\<open>/\<close> is followed by \<^verbatim>\<open>/\<close> or \<^verbatim>\<open>*\<close>.
\<close>

fun no_opener :: "string \<Rightarrow> bool" where
  "no_opener (c # d # ds) \<longleftrightarrow>
     \<not> (c = CHR ''/'' \<and> (d = CHR ''/'' \<or> d = CHR ''*'')) \<and> no_opener (d # ds)"
| "no_opener _ \<longleftrightarrow> True"

section \<open>Labels and the symbol table (\<^verbatim>\<open>lsasm.c\<close> and \<^verbatim>\<open>lsasm_v2.c\<close>)\<close>

text \<open>
  \<^verbatim>\<open>typedef struct { char name[32]; uint8_t address; } Label;\<close>
\<close>

record Label =
  name :: string
  address :: "8 word"

text \<open>
  \<^verbatim>\<open>typedef struct { Label labels[MAX_LABELS]; int count; } SymbolTable;\<close>
  The table is modelled by its live entries \<^verbatim>\<open>labels[0]\<close> ... \<^verbatim>\<open>labels[count - 1]\<close>, in
  order; \<^verbatim>\<open>count\<close> is the length of the list. \<^verbatim>\<open>symbol_table_init\<close> sets \<^verbatim>\<open>count = 0\<close>.
\<close>

type_synonym SymbolTable = "Label list"

definition symbol_table_init :: SymbolTable where
  "symbol_table_init = []"

text \<open>
  \<^verbatim>\<open>MAX_LABELS\<close> is 128 in \<^verbatim>\<open>lsasm.c\<close> and 256 in \<^verbatim>\<open>lsasm_v2.c\<close>; \<^verbatim>\<open>MAX_INSTR\<close> is 256 in
  both. The two files share the text of the functions of this section, so the macro is a
  parameter of \<open>symbol_table_add\<close>.
\<close>

definition MAX_LABELS :: nat where
  "MAX_LABELS = 128"

definition MAX_LABELS_v2 :: nat where
  "MAX_LABELS_v2 = 256"

definition MAX_INSTR :: nat where
  "MAX_INSTR = 256"

text \<open>
  \<^verbatim>\<open>int symbol_table_add(SymbolTable* table, const char* name, uint8_t address)\<close>: the new
  table and the value returned. \<^verbatim>\<open>strncpy(..., name, 31)\<close> keeps at most 31 characters.
\<close>

definition symbol_table_add :: "nat \<Rightarrow> SymbolTable \<Rightarrow> string \<Rightarrow> 8 word \<Rightarrow> SymbolTable \<times> int" where
  "symbol_table_add max_labels table nm addr =
     (if length table \<ge> max_labels then (table, - 1)
      else (table @ [\<lparr>name = take 31 nm, address = addr\<rparr>], 0))"

text \<open>
  \<^verbatim>\<open>int symbol_table_lookup(SymbolTable* table, const char* name)\<close>: the address of the
  first entry with that name, or -1.
\<close>

fun symbol_table_lookup :: "SymbolTable \<Rightarrow> string \<Rightarrow> int" where
  "symbol_table_lookup [] nm = - 1"
| "symbol_table_lookup (l # ls) nm =
     (if name l = nm then uint (address l) else symbol_table_lookup ls nm)"

text \<open>
  \<^verbatim>\<open>int is_label(const char* line)\<close>: \<^verbatim>\<open>strchr\<close> finds the first colon; \<open>len\<close> is its
  index; \<^verbatim>\<open>temp[0]\<close> is the first character of the line after the white space.
\<close>

definition is_label :: "string \<Rightarrow> bool" where
  "is_label line0 =
     (let line = dropWhile isspace line0 in
      if line = [] then False
      else if CHR '':'' \<notin> set line then False
      else
        let len = length (takeWhile (\<lambda>c. c \<noteq> CHR '':'') line);
            temp = take len line
        in if len \<le> 0 \<or> len \<ge> 32 then False
           else if \<not> isalpha (c_at temp 0) \<and> c_at temp 0 \<noteq> CHR ''_'' then False
           else True)"

text \<open>\<^verbatim>\<open>void parse_label(const char* line, char* label)\<close>: the text before the colon, at
  most 31 characters of it.\<close>

definition parse_label :: "string \<Rightarrow> string" where
  "parse_label line0 = take 31 (takeWhile (\<lambda>c. c \<noteq> CHR '':'') (dropWhile isspace line0))"

section \<open>Registers and constants\<close>

text \<open>
  \<^verbatim>\<open>uint8_t parse_register(const char* str)\<close> (the same text in both C files). The
  function returns \<^verbatim>\<open>-1\<close> through its \<^verbatim>\<open>uint8_t\<close> return type: the caller receives 255.
\<close>

definition parse_register :: "string \<Rightarrow> 8 word" where
  "parse_register str =
     (if c_at str 0 \<noteq> CHR ''X'' \<and> c_at str 0 \<noteq> CHR ''x'' then - 1
      else
        let reg = atoi (drop 1 str)
        in if reg < 0 \<or> reg > 7 then - 1 else word_of_int reg)"

text \<open>
  \<^verbatim>\<open>uint8_t parse_constant(const char* str)\<close> of \<^verbatim>\<open>lsasm.c\<close>: again \<^verbatim>\<open>-1\<close> is returned as
  255.
\<close>

definition parse_constant :: "string \<Rightarrow> 8 word" where
  "parse_constant str =
     (let val =
        (if c_at str 0 = CHR ''0'' \<and> c_at str 1 \<noteq> CHR 0x00 then
           (if c_at str 1 = CHR ''x'' \<or> c_at str 1 = CHR ''X'' then strtol str 16
            else if c_at str 1 = CHR ''b'' \<or> c_at str 1 = CHR ''B'' then strtol (drop 2 str) 2
            else atoi str)
         else atoi str)
      in if val < 0 \<or> val > 255 then - 1 else word_of_int val)"

section \<open>The 16-bit encoders of \<^verbatim>\<open>lsasm.c\<close>\<close>

datatype opcode =
    ALU_AND | ALU_OR | ALU_XOR | ALU_NOT | ALU_ADD | ALU_SUB | ALU_LSL | ALU_LSR
  | MOVE | MEMORY | B | CMP | MEMI | EXIT_OP

fun opcode_val :: "opcode \<Rightarrow> 16 word" where
  "opcode_val ALU_AND = 0"
| "opcode_val ALU_OR = 1"
| "opcode_val ALU_XOR = 2"
| "opcode_val ALU_NOT = 3"
| "opcode_val ALU_ADD = 4"
| "opcode_val ALU_SUB = 5"
| "opcode_val ALU_LSL = 6"
| "opcode_val ALU_LSR = 7"
| "opcode_val MOVE = 8"
| "opcode_val MEMORY = 9"
| "opcode_val B = 10"
| "opcode_val CMP = 11"
| "opcode_val MEMI = 12"
| "opcode_val EXIT_OP = 15"

text \<open>\<^verbatim>\<open>typedef enum { B_UNCOND = 0, ..., B_LS = 14 } branch_condition;\<close> (both C files).\<close>

datatype branch_condition =
    B_UNCOND | B_EQ | B_NE | B_LT | B_LE | B_GT | B_GE | B_CS | B_CC | B_MI | B_PL
  | B_VS | B_VC | B_HI | B_LS

fun branch_condition_val :: "branch_condition \<Rightarrow> 8 word" where
  "branch_condition_val B_UNCOND = 0"
| "branch_condition_val B_EQ = 1"
| "branch_condition_val B_NE = 2"
| "branch_condition_val B_LT = 3"
| "branch_condition_val B_LE = 4"
| "branch_condition_val B_GT = 5"
| "branch_condition_val B_GE = 6"
| "branch_condition_val B_CS = 7"
| "branch_condition_val B_CC = 8"
| "branch_condition_val B_MI = 9"
| "branch_condition_val B_PL = 10"
| "branch_condition_val B_VS = 11"
| "branch_condition_val B_VC = 12"
| "branch_condition_val B_HI = 13"
| "branch_condition_val B_LS = 14"

text \<open>
  The encoders build a \<^verbatim>\<open>uint16_t\<close> with \<^verbatim>\<open>|=\<close>. Every operand is masked before it is
  shifted, so the \<^verbatim>\<open>int\<close> arithmetic of C never leaves 16 bits and is the arithmetic of
  \<open>16 word\<close>. \<open>altBit\<close> is a \<^verbatim>\<open>uint8_t\<close> tested for being non-zero.
\<close>

definition encode_alu :: "opcode \<Rightarrow> 8 word \<Rightarrow> 8 word \<Rightarrow> 8 word \<Rightarrow> 8 word \<Rightarrow> 16 word" where
  "encode_alu op dst src1 src2 altBit =
     (let instr = (0 :: 16 word);
          instr = instr OR (opcode_val op AND 0xF);
          instr = (if altBit \<noteq> 0 then instr OR 0x0080 else instr);
          instr = instr OR push_bit 4 (ucast dst AND 0x7)
      in if altBit = 0 then
           (let instr = instr OR push_bit 8 (ucast src1 AND 0x7)
            in instr OR push_bit 12 (ucast src2 AND 0x7))
         else instr OR push_bit 8 (ucast src1 AND 0xFF))"

definition encode_move :: "8 word \<Rightarrow> 8 word \<Rightarrow> 8 word \<Rightarrow> 16 word" where
  "encode_move dst src altBit =
     (let instr = (0 :: 16 word);
          instr = instr OR opcode_val MOVE;
          instr = instr OR push_bit 4 (ucast dst AND 0x7);
          instr = (if altBit \<noteq> 0 then instr OR 0x0080 else instr)
      in if altBit = 0 then instr OR push_bit 8 (ucast src AND 0x7)
         else instr OR push_bit 8 (ucast src AND 0xFF))"

definition encode_memory :: "8 word \<Rightarrow> 8 word \<Rightarrow> 8 word \<Rightarrow> 16 word" where
  "encode_memory dst addr altBit =
     (let instr = (0 :: 16 word);
          instr = instr OR opcode_val MEMORY;
          instr = instr OR push_bit 4 (ucast dst AND 0x7);
          instr = (if altBit \<noteq> 0 then instr OR 0x0080 else instr)
      in instr OR push_bit 8 (ucast addr AND 0xFF))"

definition encode_cmp :: "8 word \<Rightarrow> 8 word \<Rightarrow> 8 word \<Rightarrow> 16 word" where
  "encode_cmp src1 src2 altBit =
     (let instr = (0 :: 16 word);
          instr = instr OR opcode_val CMP;
          instr = instr OR push_bit 4 (ucast src1 AND 0x7);
          instr = (if altBit \<noteq> 0 then instr OR 0x0080 else instr)
      in if altBit = 0 then instr OR push_bit 8 (ucast src2 AND 0x7)
         else instr OR push_bit 8 (ucast src2 AND 0xFF))"

definition encode_memi :: "8 word \<Rightarrow> 8 word \<Rightarrow> 8 word \<Rightarrow> 16 word" where
  "encode_memi dataReg addrReg altBit =
     (let instr = (0 :: 16 word);
          instr = instr OR opcode_val MEMI;
          instr = instr OR push_bit 4 (ucast dataReg AND 0x7);
          instr = (if altBit \<noteq> 0 then instr OR 0x0080 else instr)
      in instr OR push_bit 8 (ucast addrReg AND 0x7))"

definition encode_b :: "8 word \<Rightarrow> 8 word \<Rightarrow> 16 word" where
  "encode_b condition target =
     (let instr = (0 :: 16 word);
          instr = instr OR opcode_val B;
          instr = instr OR push_bit 4 (ucast condition AND 0xF)
      in instr OR push_bit 8 (ucast target AND 0xFF))"

section \<open>Parsing one line (\<^verbatim>\<open>lsasm.c\<close>)\<close>

text \<open>
  The parsers return the word and set \<^verbatim>\<open>*error\<close>. In the model \<open>None\<close> is
  \<^verbatim>\<open>*error = 1; return 0;\<close> and \<open>Some w\<close> is \<^verbatim>\<open>return w;\<close> with \<^verbatim>\<open>*error\<close> left 0.
  A comparison such as \<^verbatim>\<open>src1 == -1\<close> on a \<^verbatim>\<open>uint8_t\<close> promotes the operand to \<^verbatim>\<open>int\<close>:
  it is \<open>uint src1 = - 1\<close>.
\<close>

definition parse_alu_instruction :: "opcode \<Rightarrow> string \<Rightarrow> 16 word option" where
  "parse_alu_instruction op operands =
     (if length (sscanf_s 3 operands) = 3 then
        (let dst_str = sscanf_s 3 operands ! 0;
             src1_str = sscanf_s 3 operands ! 1;
             src2_str = sscanf_s 3 operands ! 2;
             dst = parse_register dst_str;
             src1 = parse_register src1_str;
             src2 = parse_register src2_str
         in Some (encode_alu op dst src1 src2 0))
      else if length (sscanf_s 2 operands) = 2 then
        (let dst_str = sscanf_s 2 operands ! 0;
             src1_str = sscanf_s 2 operands ! 1;
             dst = parse_register dst_str
         in if c_at src1_str 0 = CHR ''X'' \<or> c_at src1_str 0 = CHR ''x'' then
              (let src2 = parse_register src1_str in Some (encode_alu op dst dst src2 0))
            else
              (let src1 = parse_constant src1_str in Some (encode_alu op dst src1 0 1)))
      else None)"

text \<open>The \<^verbatim>\<open>NOT\<close> block of \<^verbatim>\<open>parse_instruction\<close>.\<close>

definition parse_not :: "string \<Rightarrow> 16 word option" where
  "parse_not operands =
     (if length (sscanf_s 1 operands) \<noteq> 1 then None
      else
        let dst_str = sscanf_s 1 operands ! 0;
            dst = parse_register dst_str
        in Some (encode_alu ALU_NOT dst 0 0 0))"

text \<open>The \<^verbatim>\<open>CMP\<close> block of \<^verbatim>\<open>parse_instruction\<close>.\<close>

definition parse_cmp :: "string \<Rightarrow> 16 word option" where
  "parse_cmp operands =
     (if length (sscanf_s 2 operands) \<noteq> 2 then None
      else
        let src1_str = sscanf_s 2 operands ! 0;
            src2_str = sscanf_s 2 operands ! 1;
            src1 = parse_register src1_str
        in if uint src1 = - 1 then None
           else if c_at src2_str 0 = CHR ''X'' \<or> c_at src2_str 0 = CHR ''x'' then
             (let src2 = parse_register src2_str
              in if uint src2 = - 1 then None else Some (encode_cmp src1 src2 0))
           else
             (let src2 = parse_constant src2_str
              in if uint src2 = - 1 then None else Some (encode_cmp src1 src2 1)))"

text \<open>The \<^verbatim>\<open>MOV\<close> block of \<^verbatim>\<open>parse_instruction\<close>: it makes no test of \<open>dst\<close> or \<open>src\<close>.\<close>

definition parse_mov :: "string \<Rightarrow> 16 word option" where
  "parse_mov operands =
     (if length (sscanf_s 2 operands) \<noteq> 2 then None
      else
        let dst_str = sscanf_s 2 operands ! 0;
            src_str = sscanf_s 2 operands ! 1;
            dst = parse_register dst_str
        in if c_at src_str 0 = CHR ''X'' \<or> c_at src_str 0 = CHR ''x'' then
             (let src = parse_register src_str in Some (encode_move dst src 0))
           else
             (let src = parse_constant src_str in Some (encode_move dst src 1)))"

text \<open>
  The \<^verbatim>\<open>READ\<close> and \<^verbatim>\<open>WRITE\<close> blocks of \<^verbatim>\<open>parse_instruction\<close>; they differ in \<open>altBit\<close>
  only (0 for \<^verbatim>\<open>READ\<close>, 1 for \<^verbatim>\<open>WRITE\<close>).
\<close>

definition parse_read_write :: "8 word \<Rightarrow> string \<Rightarrow> 16 word option" where
  "parse_read_write altBit operands =
     (if length (sscanf_s 2 operands) \<noteq> 2 then None
      else
        let dst_str = sscanf_s 2 operands ! 0;
            addr_str = sscanf_s 2 operands ! 1;
            dst = parse_register dst_str
        in if uint dst = - 1 then None
           else if c_at addr_str 0 = CHR ''X'' \<or> c_at addr_str 0 = CHR ''x'' then
             (let addr = parse_register addr_str
              in if uint addr = - 1 then None else Some (encode_memi dst addr altBit))
           else
             (let addr = parse_constant addr_str
              in if uint addr = - 1 then None else Some (encode_memory dst addr altBit)))"

text \<open>
  The branch block of \<^verbatim>\<open>parse_instruction\<close> (\<^verbatim>\<open>if (mnemonic[0] == 'B')\<close>): the target is
  scanned first, then the condition is chosen, then the target is an address when it
  starts with a digit (\<^verbatim>\<open>'0'\<close> is 48 and \<^verbatim>\<open>'9'\<close> is 57) and a label otherwise.
\<close>

definition branch_mnemonics :: "(string \<times> branch_condition) list" where
  "branch_mnemonics =
     [(''B'', B_UNCOND), (''BEQ'', B_EQ), (''BNE'', B_NE), (''BLT'', B_LT), (''BLE'', B_LE),
      (''BGT'', B_GT), (''BGE'', B_GE), (''BCS'', B_CS), (''BCC'', B_CC), (''BMI'', B_MI),
      (''BPL'', B_PL), (''BVS'', B_VS), (''BVC'', B_VC), (''BHI'', B_HI), (''BLS'', B_LS)]"

definition parse_b :: "string \<Rightarrow> string \<Rightarrow> SymbolTable \<Rightarrow> 16 word option" where
  "parse_b mnemonic operands symTable =
     (if length (sscanf_s 1 operands) \<noteq> 1 then None
      else
        let target_str = sscanf_s 1 operands ! 0
        in case map_of branch_mnemonics mnemonic of
             None \<Rightarrow> None
           | Some condition \<Rightarrow>
               (let addr =
                  (if (48::nat) \<le> of_char (c_at target_str 0) \<and> of_char (c_at target_str 0) \<le> (57::nat)
                   then atoi target_str
                   else symbol_table_lookup symTable target_str)
                in if addr < 0 \<or> addr > 255 then None
                   else Some (encode_b (branch_condition_val condition) (word_of_int addr))))"

text \<open>
  \<^verbatim>\<open>uint16_t parse_instruction(char* line, SymbolTable* symTable, int* error)\<close>.
  \<open>mnemonic\<close> is the first token in upper case; \<open>operands\<close> is the line after the
  first run of non-space characters and the white space that follows it.
\<close>

definition parse_instruction :: "string \<Rightarrow> SymbolTable \<Rightarrow> 16 word option" where
  "parse_instruction line0 symTable =
     (let line = dropWhile isspace line0 in
      if line = [] \<or> c_at line 0 = CHR '';'' \<or> c_at line 0 = CHR ''#'' then Some 0
      else if is_label line then Some 0
      else
        let mnemonic = map toupper (sscanf_s 1 line ! 0);
            operands = dropWhile isspace (dropWhile (\<lambda>c. \<not> isspace c) line)
        in if mnemonic = ''EXIT'' then Some (opcode_val EXIT_OP)
           else if mnemonic = ''AND'' then parse_alu_instruction ALU_AND operands
           else if mnemonic = ''OR'' then parse_alu_instruction ALU_OR operands
           else if mnemonic = ''XOR'' then parse_alu_instruction ALU_XOR operands
           else if mnemonic = ''NOT'' then parse_not operands
           else if mnemonic = ''ADD'' then parse_alu_instruction ALU_ADD operands
           else if mnemonic = ''SUB'' then parse_alu_instruction ALU_SUB operands
           else if mnemonic = ''LSL'' then parse_alu_instruction ALU_LSL operands
           else if mnemonic = ''LSR'' then parse_alu_instruction ALU_LSR operands
           else if mnemonic = ''CMP'' then parse_cmp operands
           else if mnemonic = ''MOV'' then parse_mov operands
           else if mnemonic = ''READ'' then parse_read_write 0 operands
           else if mnemonic = ''WRITE'' then parse_read_write 1 operands
           else if c_at mnemonic 0 = CHR ''B'' then parse_b mnemonic operands symTable
           else None)"

section \<open>The two passes of \<^verbatim>\<open>main\<close>\<close>

text \<open>
  The source file is the list of lines that \<^verbatim>\<open>fgets(line, MAX_LINE, script)\<close> returns,
  each with its newline. Pass 1 carries \<open>inMultiline\<close>, \<open>pc\<close> and the symbol table; the
  loop condition \<^verbatim>\<open>fgets(...) && pc < MAX_INSTR\<close> stops it at the end of the file or at
  the cap. The value \<^verbatim>\<open>symbol_table_add\<close> returns is dropped, as in the source. The loop
  has the same text in \<^verbatim>\<open>lsasm.c\<close> and \<^verbatim>\<open>lsasm_v2.c\<close>; only \<^verbatim>\<open>MAX_LABELS\<close> differs, so it
  is the first argument.
\<close>

fun pass1 :: "nat \<Rightarrow> string list \<Rightarrow> bool \<Rightarrow> nat \<Rightarrow> SymbolTable \<Rightarrow> bool \<times> nat \<times> SymbolTable" where
  "pass1 max_labels [] inMultiline pc symTable = (inMultiline, pc, symTable)"
| "pass1 max_labels (line # rest) inMultiline pc symTable =
     (if \<not> pc < MAX_INSTR then (inMultiline, pc, symTable)
      else
        let stripped = fst (strip_comments line inMultiline);
            inMultiline' = snd (strip_comments line inMultiline);
            linePtr = dropWhile isspace stripped
        in if linePtr = [] then pass1 max_labels rest inMultiline' pc symTable
           else if is_label linePtr then
             pass1 max_labels rest inMultiline' pc
               (fst (symbol_table_add max_labels symTable (parse_label linePtr) (of_nat pc)))
           else pass1 max_labels rest inMultiline' (pc + 1) symTable)"

text \<open>
  Pass 2 carries \<open>inMultiline\<close>, the words stored so far (\<^verbatim>\<open>instructions[0]\<close> ...
  \<^verbatim>\<open>instructions[instr_count - 1]\<close>) and the lines reported on \<^verbatim>\<open>stderr\<close> with
  \<^verbatim>\<open>Warning: Failed to parse line\<close>. The loop has the same text in both C files; they
  differ in the \<^verbatim>\<open>parse_instruction\<close> they call and in the width of the words, so the
  parser is the first argument.
\<close>

fun pass2 :: "(string \<Rightarrow> SymbolTable \<Rightarrow> 'w option) \<Rightarrow> string list \<Rightarrow> SymbolTable \<Rightarrow> bool
    \<Rightarrow> 'w list \<Rightarrow> string list \<Rightarrow> 'w list \<times> string list" where
  "pass2 parse [] symTable inMultiline instructions warnings = (instructions, warnings)"
| "pass2 parse (line # rest) symTable inMultiline instructions warnings =
     (if \<not> length instructions < MAX_INSTR then (instructions, warnings)
      else
        let stripped = fst (strip_comments line inMultiline);
            inMultiline' = snd (strip_comments line inMultiline)
        in case parse stripped symTable of
             None \<Rightarrow> pass2 parse rest symTable inMultiline' instructions (warnings @ [stripped])
           | Some instr \<Rightarrow>
               (let linePtr = dropWhile isspace stripped
                in if linePtr \<noteq> [] \<and> \<not> is_label linePtr then
                     pass2 parse rest symTable inMultiline' (instructions @ [instr]) warnings
                   else pass2 parse rest symTable inMultiline' instructions warnings))"

text \<open>
  \<^verbatim>\<open>main\<close> of \<^verbatim>\<open>lsasm.c\<close> up to the output loop: the count of pass 1, the words written
  and the warnings.
\<close>

definition lsasm_pc :: "string list \<Rightarrow> nat" where
  "lsasm_pc script = fst (snd (pass1 MAX_LABELS script False 0 symbol_table_init))"

definition lsasm_symTable :: "string list \<Rightarrow> SymbolTable" where
  "lsasm_symTable script = snd (snd (pass1 MAX_LABELS script False 0 symbol_table_init))"

definition lsasm_main :: "string list \<Rightarrow> 16 word list \<times> string list" where
  "lsasm_main script = pass2 parse_instruction script (lsasm_symTable script) False [] []"

section \<open>The 32-bit assembler \<^verbatim>\<open>lsasm_v2.c\<close>\<close>

text \<open>
  The names of \<^verbatim>\<open>lsasm_v2.c\<close> that \<^verbatim>\<open>lsasm.c\<close> also defines, with another body, carry the
  suffix \<open>_v2\<close> here. \<^verbatim>\<open>uint16_t parse_constant(const char* str)\<close> accepts a quoted
  character and values up to 65535, and returns \<^verbatim>\<open>-1\<close> as 65535.
\<close>

definition parse_constant_v2 :: "string \<Rightarrow> 16 word" where
  "parse_constant_v2 str =
     (if c_at str 0 = CHR 0x27 \<and> c_at str 2 = CHR 0x27 \<and> c_at str 3 = CHR 0x00 then
        of_nat (of_char (c_at str 1))
      else
        let val =
          (if c_at str 0 = CHR ''0'' \<and> c_at str 1 \<noteq> CHR 0x00 then
             (if c_at str 1 = CHR ''x'' \<or> c_at str 1 = CHR ''X'' then strtol str 16
              else if c_at str 1 = CHR ''b'' \<or> c_at str 1 = CHR ''B'' then strtol (drop 2 str) 2
              else atoi str)
           else atoi str)
        in if val < 0 \<or> val > 65535 then - 1 else word_of_int val)"

datatype opcode_v2 =
    ALU_AND_v2 | ALU_OR_v2 | ALU_XOR_v2 | ALU_NOT_v2 | ALU_ADD_v2 | ALU_SUB_v2 | ALU_LSL_v2
  | ALU_LSR_v2 | ALU_BCD_LOW_v2 | ALU_BCD_HIGH_v2
  | MOVE_v2 | MOVE_I_v2 | CMP_v2 | CMP_I_v2 | B_v2 | B_I_v2
  | READ_v2 | READ_I_v2 | WRITE_v2 | WRITE_I_v2
  | PRINT_REG_v2 | PRINT_REG_I_v2 | PRINT_CONST_v2 | PRINT_CONST_I_v2
  | EXIT_OP_v2

fun opcode_val_v2 :: "opcode_v2 \<Rightarrow> 32 word" where
  "opcode_val_v2 ALU_AND_v2 = 0x00"
| "opcode_val_v2 ALU_OR_v2 = 0x01"
| "opcode_val_v2 ALU_XOR_v2 = 0x02"
| "opcode_val_v2 ALU_NOT_v2 = 0x03"
| "opcode_val_v2 ALU_ADD_v2 = 0x04"
| "opcode_val_v2 ALU_SUB_v2 = 0x05"
| "opcode_val_v2 ALU_LSL_v2 = 0x06"
| "opcode_val_v2 ALU_LSR_v2 = 0x07"
| "opcode_val_v2 ALU_BCD_LOW_v2 = 0x08"
| "opcode_val_v2 ALU_BCD_HIGH_v2 = 0x09"
| "opcode_val_v2 MOVE_v2 = 0x20"
| "opcode_val_v2 MOVE_I_v2 = 0x21"
| "opcode_val_v2 CMP_v2 = 0x22"
| "opcode_val_v2 CMP_I_v2 = 0x23"
| "opcode_val_v2 B_v2 = 0x24"
| "opcode_val_v2 B_I_v2 = 0x25"
| "opcode_val_v2 READ_v2 = 0x26"
| "opcode_val_v2 READ_I_v2 = 0x27"
| "opcode_val_v2 WRITE_v2 = 0x28"
| "opcode_val_v2 WRITE_I_v2 = 0x29"
| "opcode_val_v2 PRINT_REG_v2 = 0x2A"
| "opcode_val_v2 PRINT_REG_I_v2 = 0x2B"
| "opcode_val_v2 PRINT_CONST_v2 = 0x2C"
| "opcode_val_v2 PRINT_CONST_I_v2 = 0x2D"
| "opcode_val_v2 EXIT_OP_v2 = 0xFFFF"

text \<open>
  The encoders build a \<^verbatim>\<open>uint32_t\<close>. In \<open>encode_alu\<close> the opcode is first narrowed to
  \<^verbatim>\<open>uint8_t actual_opcode\<close>. Operands are masked before they are shifted, so the
  arithmetic is that of \<open>32 word\<close>.
\<close>

definition actual_opcode :: "opcode_v2 \<Rightarrow> 8 word \<Rightarrow> 8 word" where
  "actual_opcode op altBit =
     ucast (if altBit \<noteq> 0 then opcode_val_v2 op OR 0x10 else opcode_val_v2 op)"

definition encode_alu_v2 :: "opcode_v2 \<Rightarrow> 8 word \<Rightarrow> 16 word \<Rightarrow> 16 word \<Rightarrow> 8 word \<Rightarrow> 32 word" where
  "encode_alu_v2 op dst src1 src2 altBit =
     (let instr = (0 :: 32 word);
          instr = instr OR ucast (actual_opcode op altBit);
          instr = instr OR push_bit 8 (ucast dst AND 0x7)
      in if altBit = 0 then
           (let instr = instr OR push_bit 12 (ucast src1 AND 0x7)
            in instr OR push_bit 16 (ucast src2 AND 0x7))
         else
           (let instr = instr OR push_bit 12 (ucast src1 AND 0x7)
            in instr OR push_bit 16 (ucast src2 AND 0xFFFF)))"

definition encode_move_v2 :: "8 word \<Rightarrow> 16 word \<Rightarrow> 8 word \<Rightarrow> 32 word" where
  "encode_move_v2 dst src_or_imm altBit =
     (let instr = (0 :: 32 word);
          instr = (if altBit \<noteq> 0 then instr OR opcode_val_v2 MOVE_I_v2
                   else instr OR opcode_val_v2 MOVE_v2);
          instr = instr OR push_bit 8 (ucast dst AND 0x7)
      in if altBit = 0 then instr OR push_bit 12 (ucast src_or_imm AND 0x7)
         else instr OR push_bit 16 (ucast src_or_imm AND 0xFFFF))"

definition encode_cmp_v2 :: "8 word \<Rightarrow> 16 word \<Rightarrow> 8 word \<Rightarrow> 32 word" where
  "encode_cmp_v2 src1 src2 altBit =
     (let instr = (0 :: 32 word);
          instr = instr OR (if altBit \<noteq> 0 then opcode_val_v2 CMP_I_v2 else opcode_val_v2 CMP_v2)
      in if altBit = 0 then
           (let instr = instr OR push_bit 12 (ucast src1 AND 0x7)
            in instr OR push_bit 16 (ucast src2 AND 0x7))
         else
           (let instr = instr OR push_bit 12 (ucast src1 AND 0x7)
            in instr OR push_bit 16 (ucast src2 AND 0xFFFF)))"

text \<open>\<^verbatim>\<open>int parse_branch_condition(const char* mnemonic)\<close>: \<open>None\<close> is the \<^verbatim>\<open>-1\<close> returned
  for a name that is no branch.\<close>

definition parse_branch_condition :: "string \<Rightarrow> branch_condition option" where
  "parse_branch_condition mnemonic = map_of branch_mnemonics mnemonic"

definition encode_branch :: "8 word \<Rightarrow> 16 word \<Rightarrow> 8 word \<Rightarrow> 32 word" where
  "encode_branch condition target is_immediate =
     (let instr = (0 :: 32 word) in
      if is_immediate \<noteq> 0 then
        (let instr = instr OR opcode_val_v2 B_I_v2;
             instr = instr OR push_bit 8 (ucast condition AND 0xF)
         in instr OR push_bit 16 (ucast target AND 0xFFFF))
      else
        (let instr = instr OR opcode_val_v2 B_v2;
             instr = instr OR push_bit 8 (ucast condition AND 0xF)
         in instr OR push_bit 16 (ucast target AND 0x7)))"

definition encode_read :: "8 word \<Rightarrow> 8 word \<Rightarrow> 32 word" where
  "encode_read dst addr_reg =
     (let instr = (0 :: 32 word);
          instr = instr OR opcode_val_v2 READ_v2;
          instr = instr OR push_bit 8 (ucast dst AND 0x7)
      in instr OR push_bit 16 (ucast addr_reg AND 0x7))"

definition encode_read_i :: "8 word \<Rightarrow> 8 word \<Rightarrow> 32 word" where
  "encode_read_i dst addr_imm =
     (let instr = (0 :: 32 word);
          instr = instr OR opcode_val_v2 READ_I_v2;
          instr = instr OR push_bit 8 (ucast dst AND 0x7)
      in instr OR push_bit 16 (ucast addr_imm AND 0xF))"

definition encode_write :: "8 word \<Rightarrow> 8 word \<Rightarrow> 32 word" where
  "encode_write data_reg addr_reg =
     (let instr = (0 :: 32 word);
          instr = instr OR opcode_val_v2 WRITE_v2;
          instr = instr OR push_bit 12 (ucast data_reg AND 0x7)
      in instr OR push_bit 16 (ucast addr_reg AND 0x7))"

definition encode_write_i :: "8 word \<Rightarrow> 8 word \<Rightarrow> 32 word" where
  "encode_write_i data_reg addr_imm =
     (let instr = (0 :: 32 word);
          instr = instr OR opcode_val_v2 WRITE_I_v2;
          instr = instr OR push_bit 12 (ucast data_reg AND 0x7)
      in instr OR push_bit 16 (ucast addr_imm AND 0xF))"

definition encode_print_reg :: "8 word \<Rightarrow> 8 word \<Rightarrow> 32 word" where
  "encode_print_reg data_reg pos_reg =
     (let instr = (0 :: 32 word);
          instr = instr OR opcode_val_v2 PRINT_REG_v2;
          instr = instr OR push_bit 12 (ucast data_reg AND 0x7)
      in instr OR push_bit 16 (ucast pos_reg AND 0x7))"

definition encode_print_reg_i :: "8 word \<Rightarrow> 8 word \<Rightarrow> 32 word" where
  "encode_print_reg_i data_reg pos_imm =
     (let instr = (0 :: 32 word);
          instr = instr OR opcode_val_v2 PRINT_REG_I_v2;
          instr = instr OR push_bit 12 (ucast data_reg AND 0x7)
      in instr OR push_bit 24 (ucast pos_imm AND 0xFF))"

definition encode_print_const :: "8 word \<Rightarrow> 8 word \<Rightarrow> 32 word" where
  "encode_print_const data_const pos_reg =
     (let instr = (0 :: 32 word);
          instr = instr OR opcode_val_v2 PRINT_CONST_v2;
          instr = instr OR push_bit 12 (ucast data_const AND 0x7)
      in instr OR push_bit 16 (ucast pos_reg AND 0x7))"

definition encode_print_const_i :: "16 word \<Rightarrow> 8 word \<Rightarrow> 32 word" where
  "encode_print_const_i data_const pos_imm =
     (let instr = (0 :: 32 word);
          instr = instr OR opcode_val_v2 PRINT_CONST_I_v2;
          instr = instr OR push_bit 16 (ucast data_const AND 0xFF)
      in instr OR push_bit 24 (ucast pos_imm AND 0xFF))"

text \<open>\<^verbatim>\<open>uint16_t encode_b(uint8_t condition, uint8_t target)\<close> of \<^verbatim>\<open>lsasm_v2.c\<close>, kept from
  the 16-bit assembler with the new value of \<^verbatim>\<open>B\<close>.\<close>

definition encode_b_v2 :: "8 word \<Rightarrow> 8 word \<Rightarrow> 16 word" where
  "encode_b_v2 condition target =
     (let instr = (0 :: 16 word);
          instr = instr OR ucast (opcode_val_v2 B_v2);
          instr = instr OR push_bit 4 (ucast condition AND 0xF)
      in instr OR push_bit 8 (ucast target AND 0xFF))"

text \<open>
  \<open>commas_to_spaces\<close> is the copy into \<^verbatim>\<open>temp_operands[256]\<close> (\<^verbatim>\<open>strncpy\<close> of at most 255
  characters) followed by the loop that turns each comma into a space.
\<close>

definition commas_to_spaces :: "string \<Rightarrow> string" where
  "commas_to_spaces operands = map (\<lambda>c. if c = CHR '','' then CHR '' '' else c) (take 255 operands)"

definition parse_alu_instruction_v2 :: "opcode_v2 \<Rightarrow> string \<Rightarrow> 32 word option" where
  "parse_alu_instruction_v2 op operands =
     (let temp_operands = commas_to_spaces operands in
      if length (sscanf_s 3 temp_operands) = 3 then
        (let dst_str = sscanf_s 3 temp_operands ! 0;
             src1_str = sscanf_s 3 temp_operands ! 1;
             src2_str = sscanf_s 3 temp_operands ! 2;
             dst = parse_register dst_str;
             src1 = (ucast (parse_register src1_str) :: 16 word)
         in if c_at src2_str 0 = CHR ''X'' \<or> c_at src2_str 0 = CHR ''x'' then
              (let src2 = (ucast (parse_register src2_str) :: 16 word)
               in Some (encode_alu_v2 op dst src1 src2 0))
            else
              (let src2 = parse_constant_v2 src2_str
               in Some (encode_alu_v2 op dst src1 src2 1)))
      else if length (sscanf_s 2 temp_operands) = 2 then
        (let dst_str = sscanf_s 2 temp_operands ! 0;
             src1_str = sscanf_s 2 temp_operands ! 1;
             dst = parse_register dst_str
         in if c_at src1_str 0 = CHR ''X'' \<or> c_at src1_str 0 = CHR ''x'' then
              (let src2 = (ucast (parse_register src1_str) :: 16 word)
               in Some (encode_alu_v2 op dst (ucast dst) src2 0))
            else
              (let src1 = parse_constant_v2 src1_str
               in Some (encode_alu_v2 op dst src1 0 1)))
      else None)"

text \<open>The \<^verbatim>\<open>NOT\<close>, \<^verbatim>\<open>CMP\<close> and \<^verbatim>\<open>MOV\<close> blocks of \<^verbatim>\<open>parse_instruction\<close> (\<^verbatim>\<open>lsasm_v2.c\<close>).\<close>

definition parse_not_v2 :: "string \<Rightarrow> 32 word option" where
  "parse_not_v2 operands =
     (if length (sscanf_s 1 operands) \<noteq> 1 then None
      else
        let dst_str = sscanf_s 1 operands ! 0;
            dst = parse_register dst_str
        in Some (encode_alu_v2 ALU_NOT_v2 dst 0 0 0))"

definition parse_cmp_v2 :: "string \<Rightarrow> 32 word option" where
  "parse_cmp_v2 operands =
     (if length (sscanf_s 2 operands) \<noteq> 2 then None
      else
        let src1_str = sscanf_s 2 operands ! 0;
            src2_str = sscanf_s 2 operands ! 1;
            src1 = parse_register src1_str
        in if uint src1 = - 1 then None
           else if c_at src2_str 0 = CHR ''X'' \<or> c_at src2_str 0 = CHR ''x'' then
             (let src2 = (ucast (parse_register src2_str) :: 16 word)
              in if uint src2 = - 1 then None else Some (encode_cmp_v2 src1 src2 0))
           else
             (let src2 = parse_constant_v2 src2_str
              in if uint src2 = - 1 then None else Some (encode_cmp_v2 src1 src2 1)))"

definition parse_mov_v2 :: "string \<Rightarrow> 32 word option" where
  "parse_mov_v2 operands =
     (if length (sscanf_s 2 operands) \<noteq> 2 then None
      else
        let dst_str = sscanf_s 2 operands ! 0;
            src_str = sscanf_s 2 operands ! 1;
            dst = parse_register dst_str
        in if c_at src_str 0 = CHR ''X'' \<or> c_at src_str 0 = CHR ''x'' then
             (let src = (ucast (parse_register src_str) :: 16 word)
              in Some (encode_move_v2 dst src 0))
           else
             (let src = parse_constant_v2 src_str in Some (encode_move_v2 dst src 1)))"

text \<open>
  The conditional-branch block (\<^verbatim>\<open>if (condition >= 0)\<close>). A target that starts with
  \<^verbatim>\<open>X\<close> or \<^verbatim>\<open>x\<close> is a register. Otherwise \<open>target\<close> is \<^verbatim>\<open>atoi(target_str)\<close> narrowed to
  \<^verbatim>\<open>uint16_t\<close>, and the target is looked up as a label when that is 0 and the text does
  not start with \<^verbatim>\<open>0\<close>. The test \<^verbatim>\<open>target > 65535\<close> is on the \<^verbatim>\<open>uint16_t\<close>.
\<close>

definition parse_branch_v2 :: "branch_condition \<Rightarrow> string \<Rightarrow> SymbolTable \<Rightarrow> 32 word option" where
  "parse_branch_v2 condition operands symTable =
     (if length (sscanf_s 1 operands) \<noteq> 1 then None
      else
        let target_str = sscanf_s 1 operands ! 0
        in if c_at target_str 0 = CHR ''X'' \<or> c_at target_str 0 = CHR ''x'' then
             (let reg = atoi (drop 1 target_str)
              in if reg < 0 \<or> reg > 7 then None
                 else Some (encode_branch (branch_condition_val condition) (word_of_int reg) 0))
           else
             (let target = (word_of_int (atoi target_str) :: 16 word)
              in if target = 0 \<and> c_at target_str 0 \<noteq> CHR ''0'' then
                   (let addr = symbol_table_lookup symTable target_str
                    in if addr < 0 then None
                       else
                         let target = (word_of_int addr :: 16 word)
                         in if uint target > 65535 then None
                            else Some (encode_branch (branch_condition_val condition) target 1))
                 else if uint target > 65535 then None
                 else Some (encode_branch (branch_condition_val condition) target 1)))"

text \<open>
  The \<^verbatim>\<open>READ\<close> and \<^verbatim>\<open>WRITE\<close> blocks. The immediate address is an \<^verbatim>\<open>int\<close> from \<^verbatim>\<open>atoi\<close>,
  tested against 0..15.
\<close>

definition parse_read_v2 :: "string \<Rightarrow> 32 word option" where
  "parse_read_v2 operands =
     (if length (sscanf_s 2 operands) \<noteq> 2 then None
      else
        let dst_str = sscanf_s 2 operands ! 0;
            addr_str = sscanf_s 2 operands ! 1;
            dst = parse_register dst_str
        in if uint dst = - 1 then None
           else if c_at addr_str 0 = CHR ''X'' \<or> c_at addr_str 0 = CHR ''x'' then
             (let addr_reg = parse_register addr_str
              in if uint addr_reg = - 1 then None else Some (encode_read dst addr_reg))
           else
             (let addr_imm = atoi addr_str
              in if addr_imm < 0 \<or> addr_imm > 15 then None
                 else Some (encode_read_i dst (word_of_int addr_imm))))"

definition parse_write_v2 :: "string \<Rightarrow> 32 word option" where
  "parse_write_v2 operands =
     (if length (sscanf_s 2 operands) \<noteq> 2 then None
      else
        let data_str = sscanf_s 2 operands ! 0;
            addr_str = sscanf_s 2 operands ! 1;
            data_reg = parse_register data_str
        in if uint data_reg = - 1 then None
           else if c_at addr_str 0 = CHR ''X'' \<or> c_at addr_str 0 = CHR ''x'' then
             (let addr_reg = parse_register addr_str
              in if uint addr_reg = - 1 then None else Some (encode_write data_reg addr_reg))
           else
             (let addr_imm = atoi addr_str
              in if addr_imm < 0 \<or> addr_imm > 15 then None
                 else Some (encode_write_i data_reg (word_of_int addr_imm))))"

text \<open>The \<^verbatim>\<open>PRINT\<close> block: \<^verbatim>\<open>PRINT address code\<close>, each operand a register or a constant.\<close>

definition parse_print_v2 :: "string \<Rightarrow> 32 word option" where
  "parse_print_v2 operands =
     (let temp_operands = commas_to_spaces operands in
      if length (sscanf_s 2 temp_operands) \<noteq> 2 then None
      else
        let addr_str = sscanf_s 2 temp_operands ! 0;
            code_str = sscanf_s 2 temp_operands ! 1;
            is_addr_reg = (c_at addr_str 0 = CHR ''X'' \<or> c_at addr_str 0 = CHR ''x'');
            is_code_reg = (c_at code_str 0 = CHR ''X'' \<or> c_at code_str 0 = CHR ''x'')
        in if is_addr_reg \<and> is_code_reg then
             (let addr_reg = parse_register addr_str;
                  code_reg = parse_register code_str
              in if uint addr_reg = - 1 \<or> uint code_reg = - 1 then None
                 else Some (encode_print_reg code_reg addr_reg))
           else if \<not> is_addr_reg \<and> is_code_reg then
             (let addr_imm = parse_constant_v2 addr_str;
                  code_reg = parse_register code_str
              in if uint addr_imm = - 1 \<or> uint code_reg = - 1 then None
                 else if addr_imm > 255 then None
                 else Some (encode_print_reg_i code_reg (ucast addr_imm)))
           else if is_addr_reg \<and> \<not> is_code_reg then
             (let addr_reg = parse_register addr_str;
                  code_const = parse_constant_v2 code_str
              in if uint addr_reg = - 1 \<or> uint code_const = - 1 then None
                 else if code_const > 7 then None
                 else Some (encode_print_const (ucast code_const) addr_reg))
           else
             (let addr_imm = parse_constant_v2 addr_str;
                  code_const = parse_constant_v2 code_str
              in if uint addr_imm = - 1 \<or> uint code_const = - 1 then None
                 else if addr_imm > 255 \<or> code_const > 255 then None
                 else Some (encode_print_const_i code_const (ucast addr_imm))))"

text \<open>The last block of \<^verbatim>\<open>parse_instruction\<close> (\<^verbatim>\<open>if (mnemonic[0] == 'B')\<close>), kept from the
  16-bit assembler; its \<^verbatim>\<open>uint16_t\<close> result widens to the \<^verbatim>\<open>uint32_t\<close> returned.\<close>

definition parse_b_v2 :: "string \<Rightarrow> string \<Rightarrow> SymbolTable \<Rightarrow> 32 word option" where
  "parse_b_v2 mnemonic operands symTable =
     (if length (sscanf_s 1 operands) \<noteq> 1 then None
      else
        let target_str = sscanf_s 1 operands ! 0
        in case map_of branch_mnemonics mnemonic of
             None \<Rightarrow> None
           | Some condition \<Rightarrow>
               (let addr =
                  (if (48::nat) \<le> of_char (c_at target_str 0) \<and> of_char (c_at target_str 0) \<le> (57::nat)
                   then atoi target_str
                   else symbol_table_lookup symTable target_str)
                in if addr < 0 \<or> addr > 255 then None
                   else Some (ucast (encode_b_v2 (branch_condition_val condition) (word_of_int addr)))))"

text \<open>\<^verbatim>\<open>uint32_t parse_instruction(char* line, SymbolTable* symTable, int* error)\<close>.\<close>

definition parse_instruction_v2 :: "string \<Rightarrow> SymbolTable \<Rightarrow> 32 word option" where
  "parse_instruction_v2 line0 symTable =
     (let line = dropWhile isspace line0 in
      if line = [] \<or> c_at line 0 = CHR '';'' \<or> c_at line 0 = CHR ''#'' then Some 0
      else if is_label line then Some 0
      else
        let mnemonic = map toupper (sscanf_s 1 line ! 0);
            operands = dropWhile isspace (dropWhile (\<lambda>c. \<not> isspace c) line)
        in if mnemonic = ''EXIT'' then Some 0xFFFF
           else if mnemonic = ''AND'' then parse_alu_instruction_v2 ALU_AND_v2 operands
           else if mnemonic = ''OR'' then parse_alu_instruction_v2 ALU_OR_v2 operands
           else if mnemonic = ''XOR'' then parse_alu_instruction_v2 ALU_XOR_v2 operands
           else if mnemonic = ''NOT'' then parse_not_v2 operands
           else if mnemonic = ''ADD'' then parse_alu_instruction_v2 ALU_ADD_v2 operands
           else if mnemonic = ''SUB'' then parse_alu_instruction_v2 ALU_SUB_v2 operands
           else if mnemonic = ''LSL'' then parse_alu_instruction_v2 ALU_LSL_v2 operands
           else if mnemonic = ''LSR'' then parse_alu_instruction_v2 ALU_LSR_v2 operands
           else if mnemonic = ''CMP'' then parse_cmp_v2 operands
           else if mnemonic = ''MOV'' then parse_mov_v2 operands
           else
             case parse_branch_condition mnemonic of
               Some condition \<Rightarrow> parse_branch_v2 condition operands symTable
             | None \<Rightarrow>
                 if mnemonic = ''READ'' then parse_read_v2 operands
                 else if mnemonic = ''WRITE'' then parse_write_v2 operands
                 else if mnemonic = ''PRINT'' then parse_print_v2 operands
                 else if c_at mnemonic 0 = CHR ''B'' then parse_b_v2 mnemonic operands symTable
                 else None)"

text \<open>
  \<^verbatim>\<open>main\<close> of \<^verbatim>\<open>lsasm_v2.c\<close>: the two passes, then the split of each word into the ALPHA
  bank (upper 16 bits) and the BETA bank (lower 16 bits). Both banks are arrays of 256
  zeros in which the loop over \<^verbatim>\<open>i < instr_count\<close> stores entry \<open>i\<close>.
\<close>

definition lsasm_v2_pc :: "string list \<Rightarrow> nat" where
  "lsasm_v2_pc script = fst (snd (pass1 MAX_LABELS_v2 script False 0 []))"

definition lsasm_v2_symTable :: "string list \<Rightarrow> SymbolTable" where
  "lsasm_v2_symTable script = snd (snd (pass1 MAX_LABELS_v2 script False 0 []))"

definition lsasm_v2_pass2 :: "string list \<Rightarrow> 32 word list \<times> string list" where
  "lsasm_v2_pass2 script = pass2 parse_instruction_v2 script (lsasm_v2_symTable script) False [] []"

definition alpha_rom :: "32 word list \<Rightarrow> 16 word list" where
  "alpha_rom instructions =
     foldl (\<lambda>rom i. rom[i := ucast (drop_bit 16 (instructions ! i) AND 0xFFFF)])
       (replicate 256 0) [0..<length instructions]"

definition beta_rom :: "32 word list \<Rightarrow> 16 word list" where
  "beta_rom instructions =
     foldl (\<lambda>rom i. rom[i := ucast (instructions ! i AND 0xFFFF)])
       (replicate 256 0) [0..<length instructions]"

definition lsasm_v2_main :: "string list \<Rightarrow> 16 word list \<times> 16 word list" where
  "lsasm_v2_main script =
     (let instructions = fst (lsasm_v2_pass2 script)
      in (alpha_rom instructions, beta_rom instructions))"

text \<open>
  \<^verbatim>\<open>AssemblerTool::execute\<close> of \<^verbatim>\<open>gate_computer_toolset.cpp\<close> splits its
  \<^verbatim>\<open>std::vector<uint32_t> instructions\<close> in the same way into \<open>alphaData\<close> and
  \<open>betaData\<close>, two vectors of 256 zeros.
\<close>

definition alphaData :: "32 word list \<Rightarrow> 16 word list" where
  "alphaData instructions =
     foldl (\<lambda>v i. v[i := ucast (drop_bit 16 (instructions ! i) AND 0xFFFF)])
       (replicate 256 0) [0..<length instructions]"

definition betaData :: "32 word list \<Rightarrow> 16 word list" where
  "betaData instructions =
     foldl (\<lambda>v i. v[i := ucast (instructions ! i AND 0xFFFF)])
       (replicate 256 0) [0..<length instructions]"

section \<open>The instruction catalogue of the C++ tool (\<^verbatim>\<open>utils/IsaSpec.hpp\<close>)\<close>

text \<open>
  \<^verbatim>\<open>AssemblerTool\<close> of \<^verbatim>\<open>gate_computer_toolset.cpp\<close> reads the opcode of a mnemonic from the
  table \<^verbatim>\<open>instructions_tech\<close> and the code of a branch condition from the table
  \<^verbatim>\<open>branch_conditions\<close>, the two fields of the \<^verbatim>\<open>ISA_SPEC\<close> that \<^verbatim>\<open>generateISASpec()\<close>
  returns which the assembler uses.
\<close>

datatype InstructionType =
    TYPE_ALU | TYPE_FPU | TYPE_MOVE | TYPE_CMP | TYPE_BRANCH | TYPE_MEMORY
  | TYPE_PRINT_REG | TYPE_PRINT_CONST | TYPE_SERVICE

datatype Format = R | I | J | JI

record InstructionFlags =
  VALID :: bool
  TRY_WRITE :: bool
  TRY_READ_A :: bool
  TRY_READ_B :: bool
  OVERRIDE_B :: bool
  OVERRIDE_WRITE :: bool
  IMMEDIATE :: bool

record InstructionTech =
  technical_name :: string
  mnemonic :: string
  opcode :: "8 word"
  format :: Format
  type :: InstructionType
  flags :: InstructionFlags

text \<open>
  \<^verbatim>\<open>struct BranchCondition { std::string mnemonic; uint8_t code; std::string name;
  std::string description; }\<close>; the fields carry the prefix \<open>bc_\<close> because \<open>mnemonic\<close>
  and \<open>name\<close> are fields of other structures.
\<close>

record BranchCondition =
  bc_mnemonic :: string
  bc_code :: "8 word"
  bc_name :: string
  bc_description :: string

text \<open>\<^verbatim>\<open>std::to_string\<close> on a non-negative \<^verbatim>\<open>int\<close>.\<close>

function to_string :: "nat \<Rightarrow> string" where
  "to_string n =
     (if n < 10 then [''0123456789'' ! n]
      else to_string (n div 10) @ [''0123456789'' ! (n mod 10)])"
  by pat_completeness auto
termination
  by (relation "measure id") auto

text \<open>
  The flag sets of \<^verbatim>\<open>generateISASpec\<close>. \<open>mk_flags\<close> lists the fields in the order of the
  structure: \<^verbatim>\<open>VALID, TRY_WRITE, TRY_READ_A, TRY_READ_B, OVERRIDE_B, OVERRIDE_WRITE,
  IMMEDIATE\<close>.
\<close>

definition mk_flags :: "bool \<Rightarrow> bool \<Rightarrow> bool \<Rightarrow> bool \<Rightarrow> bool \<Rightarrow> bool \<Rightarrow> bool \<Rightarrow> InstructionFlags" where
  "mk_flags v w a b ob ow imm =
     \<lparr>VALID = v, TRY_WRITE = w, TRY_READ_A = a, TRY_READ_B = b, OVERRIDE_B = ob,
      OVERRIDE_WRITE = ow, IMMEDIATE = imm\<rparr>"

definition aluRegFlags :: InstructionFlags where
  "aluRegFlags = mk_flags True True True True False False False"

definition aluImmFlags :: InstructionFlags where
  "aluImmFlags = mk_flags True True True False True False True"

definition fpuRegFlags :: InstructionFlags where
  "fpuRegFlags = mk_flags True True True True False False False"

definition fpuImmFlags :: InstructionFlags where
  "fpuImmFlags = mk_flags True True True False True False True"

definition moveRegFlags :: InstructionFlags where
  "moveRegFlags = mk_flags True True True True False False False"

definition moveImmFlags :: InstructionFlags where
  "moveImmFlags = mk_flags True True True False True True True"

definition cmpRegFlags :: InstructionFlags where
  "cmpRegFlags = mk_flags True False True True False False False"

definition cmpImmFlags :: InstructionFlags where
  "cmpImmFlags = mk_flags True False True False True False True"

definition branchRegFlags :: InstructionFlags where
  "branchRegFlags = mk_flags True False False True False False False"

definition branchImmFlags :: InstructionFlags where
  "branchImmFlags = mk_flags True False False False True False True"

definition readRegFlags :: InstructionFlags where
  "readRegFlags = mk_flags True True False True False False False"

definition readImmFlags :: InstructionFlags where
  "readImmFlags = mk_flags True True False False True False True"

definition writeRegFlags :: InstructionFlags where
  "writeRegFlags = mk_flags True False True True False False False"

definition writeImmFlags :: InstructionFlags where
  "writeImmFlags = mk_flags True False True False True False True"

definition printRegRegFlags :: InstructionFlags where
  "printRegRegFlags = mk_flags True False True True False False False"

definition printRegImmFlags :: InstructionFlags where
  "printRegImmFlags = mk_flags True False True False True False True"

definition printConstRegFlags :: InstructionFlags where
  "printConstRegFlags = mk_flags True False False True False True False"

definition printConstImmFlags :: InstructionFlags where
  "printConstImmFlags = mk_flags True False False False True True True"

definition exitFlags :: InstructionFlags where
  "exitFlags = mk_flags True False False False False False False"

text \<open>
  \<^verbatim>\<open>aluOps[]\<close>: the \<^verbatim>\<open>tech_suffix\<close> and the \<^verbatim>\<open>mnemonic\<close> of each entry (its other fields
  are the texts of the documentation table).
\<close>

definition aluOps :: "(string \<times> string) list" where
  "aluOps =
     [(''AND'', ''AND''), (''OR'', ''OR''), (''XOR'', ''XOR''), (''NOT'', ''NOT''),
      (''ADD'', ''ADD''), (''SUB'', ''SUB''), (''LSL'', ''LSL''), (''LSR'', ''LSR''),
      (''BCDL'', ''BCDL''), (''BCDH'', ''BCDH''), (''UMUL_L'', ''UMUL_L''),
      (''UMUL_H'', ''UMUL_H''), (''MUL_L'', ''MUL_L''), (''MUL_H'', ''MUL_H''),
      (''NUL0E'', ''NUL0E''), (''NUL0F'', ''NUL0F'')]"

definition mk_tech :: "string \<Rightarrow> string \<Rightarrow> 8 word \<Rightarrow> Format \<Rightarrow> InstructionType \<Rightarrow> InstructionFlags
    \<Rightarrow> InstructionTech" where
  "mk_tech tech_name mnem op fmt typ flg =
     \<lparr>technical_name = tech_name, mnemonic = mnem, opcode = op, format = fmt, type = typ,
      flags = flg\<rparr>"

definition instructions_tech :: "InstructionTech list" where
  "instructions_tech =
     concat (map (\<lambda>i.
        [mk_tech (''ALU_'' @ fst (aluOps ! i)) (snd (aluOps ! i)) (of_nat (0x00 + i)) R TYPE_ALU
           aluRegFlags,
         mk_tech (''ALU_'' @ fst (aluOps ! i) @ ''_I'') (snd (aluOps ! i)) (of_nat (0x10 + i)) I
           TYPE_ALU aluImmFlags]) [0..<16])
     @ concat (map (\<lambda>i.
        [mk_tech (''FPU_NUL'' @ to_string (0x20 + i)) (''FNUL'' @ to_string i) (of_nat (0x20 + i)) R
           TYPE_FPU fpuRegFlags,
         mk_tech (''FPU_NUL'' @ to_string (0x30 + i) @ ''_I'') (''FNUL'' @ to_string i)
           (of_nat (0x30 + i)) I TYPE_FPU fpuImmFlags]) [0..<16])
     @ [mk_tech ''MOVE'' ''MOV'' 0x40 R TYPE_MOVE moveRegFlags,
        mk_tech ''MOVE_I'' ''MOV'' 0x41 I TYPE_MOVE moveImmFlags,
        mk_tech ''CMP'' ''CMP'' 0x42 R TYPE_CMP cmpRegFlags,
        mk_tech ''CMP_I'' ''CMP'' 0x43 I TYPE_CMP cmpImmFlags,
        mk_tech ''BRANCH'' ''B'' 0x44 J TYPE_BRANCH branchRegFlags,
        mk_tech ''BRANCH_I'' ''B'' 0x45 JI TYPE_BRANCH branchImmFlags,
        mk_tech ''READ'' ''READ'' 0x46 R TYPE_MEMORY readRegFlags,
        mk_tech ''READ_I'' ''READ'' 0x47 I TYPE_MEMORY readImmFlags,
        mk_tech ''WRITE'' ''WRITE'' 0x48 R TYPE_MEMORY writeRegFlags,
        mk_tech ''WRITE_I'' ''WRITE'' 0x49 I TYPE_MEMORY writeImmFlags,
        mk_tech ''PRINT_REG'' ''PRINT'' 0x4A R TYPE_PRINT_REG printRegRegFlags,
        mk_tech ''PRINT_REG_I'' ''PRINT'' 0x4B I TYPE_PRINT_REG printRegImmFlags,
        mk_tech ''PRINT_CNS'' ''PRINT'' 0x4C R TYPE_PRINT_CONST printConstRegFlags,
        mk_tech ''PRINT_CNS_I'' ''PRINT'' 0x4D I TYPE_PRINT_CONST printConstImmFlags,
        mk_tech ''EXIT'' ''EXIT'' 0xFF R TYPE_SERVICE exitFlags]"

definition mk_branch :: "string \<Rightarrow> 8 word \<Rightarrow> string \<Rightarrow> string \<Rightarrow> BranchCondition" where
  "mk_branch mnem c n desc =
     \<lparr>bc_mnemonic = mnem, bc_code = c, bc_name = n, bc_description = desc\<rparr>"

definition branch_conditions :: "BranchCondition list" where
  "branch_conditions =
     [mk_branch ''B'' 0 ''Unconditional'' ''Always branch'',
      mk_branch ''BEQ'' 1 ''Equal'' ''Branch if equal (Z set)'',
      mk_branch ''BNE'' 2 ''Not Equal'' ''Branch if not equal (Z clear)'',
      mk_branch ''BLT'' 3 ''Less Than'' ''Branch if less than (N set)'',
      mk_branch ''BLE'' 4 ''Less or Equal'' ''Branch if less than or equal (N set or Z set)'',
      mk_branch ''BGT'' 5 ''Greater Than'' ''Branch if greater than (N clear and Z clear)'',
      mk_branch ''BGE'' 6 ''Greater or Equal'' ''Branch if greater than or equal (N clear)'',
      mk_branch ''BCS'' 7 ''Carry Set'' ''Branch if carry set (C set)'',
      mk_branch ''BCC'' 8 ''Carry Clear'' ''Branch if carry clear (C clear)'',
      mk_branch ''BMI'' 9 ''Minus'' ''Branch if negative (N set)'',
      mk_branch ''BPL'' 10 ''Plus'' ''Branch if positive (N clear)'',
      mk_branch ''BVS'' 11 ''Overflow Set'' ''Branch if overflow set (V set)'',
      mk_branch ''BVC'' 12 ''Overflow Clear'' ''Branch if overflow clear (V clear)'',
      mk_branch ''BHI'' 13 ''Higher'' ''Branch if higher (unsigned)'',
      mk_branch ''BLS'' 14 ''Lower or Same'' ''Branch if lower or same (unsigned)'']"

section \<open>\<^verbatim>\<open>AssemblerTool\<close>: the helpers of \<^verbatim>\<open>parseInstruction\<close>\<close>

text \<open>
  The member functions below read the members \<^verbatim>\<open>isaSpec\<close> (the catalogue above),
  \<^verbatim>\<open>symbolTable\<close> and \<^verbatim>\<open>aliasTable\<close>; the two tables are arguments of the model. The C++
  \<^verbatim>\<open>struct Label { std::string name; uint8_t address; }\<close> is the record \<open>Label\<close>. A search
  loop that returns at the first match is \<open>find\<close>.
\<close>

record RegisterAlias =
  "alias" :: string
  registerName :: string

definition isAluOperation :: "string \<Rightarrow> bool" where
  "isAluOperation mnem =
     (find (\<lambda>instr. mnemonic instr = mnem \<and> type instr = TYPE_ALU) instructions_tech \<noteq> None)"

definition findOpcode :: "string \<Rightarrow> bool \<Rightarrow> 8 word" where
  "findOpcode mnem immediate =
     (case find (\<lambda>instr. mnemonic instr = mnem \<and> IMMEDIATE (flags instr) = immediate)
             instructions_tech of
        Some instr \<Rightarrow> opcode instr
      | None \<Rightarrow> 0xFF)"

definition findOpcodeByType :: "string \<Rightarrow> InstructionType \<Rightarrow> bool \<Rightarrow> 8 word" where
  "findOpcodeByType mnem typ immediate =
     (case find (\<lambda>instr. mnemonic instr = mnem \<and> type instr = typ
                   \<and> IMMEDIATE (flags instr) = immediate) instructions_tech of
        Some instr \<Rightarrow> opcode instr
      | None \<Rightarrow> 0xFF)"

definition findBranchCondition :: "string \<Rightarrow> int" where
  "findBranchCondition mnem =
     (case find (\<lambda>branch. bc_mnemonic branch = mnem) branch_conditions of
        Some branch \<Rightarrow> uint (bc_code branch)
      | None \<Rightarrow> - 1)"

definition resolveAlias :: "RegisterAlias list \<Rightarrow> string \<Rightarrow> string" where
  "resolveAlias aliasTable str =
     (case find (\<lambda>a. alias a = str) aliasTable of
        Some a \<Rightarrow> registerName a
      | None \<Rightarrow> str)"

text \<open>\<^verbatim>\<open>int parseRegister(const std::string& str)\<close>: the register number, or -1.\<close>

definition parseRegister :: "RegisterAlias list \<Rightarrow> string \<Rightarrow> int" where
  "parseRegister aliasTable str =
     (let resolved = resolveAlias aliasTable str in
      if length resolved < 2 then - 1
      else if resolved ! 0 \<noteq> CHR ''X'' \<and> resolved ! 0 \<noteq> CHR ''x'' then - 1
      else
        let reg = atoi (drop 1 resolved)
        in if reg < 0 \<or> reg > 7 then - 1 else reg)"

text \<open>\<^verbatim>\<open>int parseConstant(const std::string& str)\<close>: the value, or -1.\<close>

definition parseConstant :: "string \<Rightarrow> int" where
  "parseConstant str =
     (if str = [] then - 1
      else if length str = 3 \<and> str ! 0 = CHR 0x27 \<and> str ! 2 = CHR 0x27 then
        int (of_char (str ! 1))
      else
        let val =
          (if length str > 2 \<and> str ! 0 = CHR ''0'' then
             (if str ! 1 = CHR ''x'' \<or> str ! 1 = CHR ''X'' then strtol str 16
              else if str ! 1 = CHR ''b'' \<or> str ! 1 = CHR ''B'' then strtol (drop 2 str) 2
              else atoi str)
           else atoi str)
        in if val < 0 \<or> val > 65535 then - 1 else val)"

text \<open>
  \<^verbatim>\<open>bool isLabel(const std::string& line)\<close>: the text before the first colon, without
  its leading blanks and tabs, is not empty and starts with a letter, \<^verbatim>\<open>_\<close> or \<^verbatim>\<open>.\<close>.
\<close>

definition isLabel :: "string \<Rightarrow> bool" where
  "isLabel line =
     (if CHR '':'' \<notin> set line then False
      else
        let labelName = takeWhile (\<lambda>c. c \<noteq> CHR '':'') line;
            labelName = dropWhile (\<lambda>c. c = CHR '' '' \<or> c = CHR 0x09) labelName
        in if labelName = [] then False
           else if \<not> isalpha (labelName ! 0) \<and> labelName ! 0 \<noteq> CHR ''_''
                   \<and> labelName ! 0 \<noteq> CHR ''.'' then False
           else True)"

fun lookupLabel :: "Label list \<Rightarrow> string \<Rightarrow> int" where
  "lookupLabel [] nm = - 1"
| "lookupLabel (label # labels) nm =
     (if name label = nm then uint (address label) else lookupLabel labels nm)"

definition parseBranchCondition :: "string \<Rightarrow> int" where
  "parseBranchCondition mnem = findBranchCondition mnem"

text \<open>The encoders of the C++ tool; the arguments have the types of the parameters.\<close>

definition encodeAlu :: "8 word \<Rightarrow> 8 word \<Rightarrow> 16 word \<Rightarrow> 16 word \<Rightarrow> bool \<Rightarrow> 32 word" where
  "encodeAlu op dst src1 src2 isImmediate =
     (let instr = (0 :: 32 word);
          actualOpcode = (if isImmediate then op OR 0x10 else op);
          instr = instr OR ucast actualOpcode;
          instr = instr OR push_bit 8 (ucast dst AND 0x7)
      in if \<not> isImmediate then
           (let instr = instr OR push_bit 12 (ucast src1 AND 0x7)
            in instr OR push_bit 16 (ucast src2 AND 0x7))
         else
           (let instr = instr OR push_bit 12 (ucast src1 AND 0x7)
            in instr OR push_bit 16 (ucast src2 AND 0xFFFF)))"

definition encodeMove :: "8 word \<Rightarrow> 16 word \<Rightarrow> bool \<Rightarrow> 32 word" where
  "encodeMove dst srcOrImm isImmediate =
     (let instr = (0 :: 32 word);
          moveOp = findOpcode ''MOV'' isImmediate;
          instr = instr OR ucast moveOp;
          instr = instr OR push_bit 8 (ucast dst AND 0x7)
      in if \<not> isImmediate then instr OR push_bit 12 (ucast srcOrImm AND 0x7)
         else instr OR push_bit 16 (ucast srcOrImm AND 0xFFFF))"

definition encodeCmp :: "8 word \<Rightarrow> 16 word \<Rightarrow> bool \<Rightarrow> 32 word" where
  "encodeCmp src1 src2 isImmediate =
     (let instr = (0 :: 32 word);
          cmpOp = findOpcode ''CMP'' isImmediate;
          instr = instr OR ucast cmpOp
      in if \<not> isImmediate then
           (let instr = instr OR push_bit 12 (ucast src1 AND 0x7)
            in instr OR push_bit 16 (ucast src2 AND 0x7))
         else
           (let instr = instr OR push_bit 12 (ucast src1 AND 0x7)
            in instr OR push_bit 16 (ucast src2 AND 0xFFFF)))"

definition encodeBranch :: "8 word \<Rightarrow> 16 word \<Rightarrow> bool \<Rightarrow> 32 word" where
  "encodeBranch condition target isImmediate =
     (let instr = (0 :: 32 word);
          branchOp = findOpcode ''B'' isImmediate;
          instr = instr OR ucast branchOp
      in if isImmediate then
           (let instr = instr OR push_bit 8 (ucast condition AND 0xF)
            in instr OR push_bit 16 (ucast target AND 0xFFFF))
         else
           (let instr = instr OR push_bit 8 (ucast condition AND 0xF)
            in instr OR push_bit 16 (ucast target AND 0xF)))"

definition encodeRead :: "8 word \<Rightarrow> 8 word \<Rightarrow> 32 word" where
  "encodeRead dst addrReg =
     (let instr = (0 :: 32 word);
          readOp = findOpcode ''READ'' False;
          instr = instr OR ucast readOp;
          instr = instr OR push_bit 8 (ucast dst AND 0x7)
      in instr OR push_bit 16 (ucast addrReg AND 0x7))"

definition encodeReadI :: "8 word \<Rightarrow> 16 word \<Rightarrow> 32 word" where
  "encodeReadI dst addrImm =
     (let instr = (0 :: 32 word);
          readOp = findOpcode ''READ'' True;
          instr = instr OR ucast readOp;
          instr = instr OR push_bit 8 (ucast dst AND 0x7)
      in instr OR push_bit 16 (ucast addrImm AND 0xFFFF))"

definition encodeWrite :: "8 word \<Rightarrow> 8 word \<Rightarrow> 32 word" where
  "encodeWrite dataReg addrReg =
     (let instr = (0 :: 32 word);
          writeOp = findOpcode ''WRITE'' False;
          instr = instr OR ucast writeOp;
          instr = instr OR push_bit 12 (ucast dataReg AND 0x7)
      in instr OR push_bit 16 (ucast addrReg AND 0x7))"

definition encodeWriteI :: "8 word \<Rightarrow> 16 word \<Rightarrow> 32 word" where
  "encodeWriteI dataReg addrImm =
     (let instr = (0 :: 32 word);
          writeOp = findOpcode ''WRITE'' True;
          instr = instr OR ucast writeOp;
          instr = instr OR push_bit 12 (ucast dataReg AND 0x7)
      in instr OR push_bit 16 (ucast addrImm AND 0xFFFF))"

definition encodePrintReg :: "8 word \<Rightarrow> 8 word \<Rightarrow> 32 word" where
  "encodePrintReg dataReg posReg =
     (let instr = (0 :: 32 word);
          printOp = findOpcodeByType ''PRINT'' TYPE_PRINT_REG False;
          instr = instr OR ucast printOp;
          instr = instr OR push_bit 12 (ucast dataReg AND 0x7)
      in instr OR push_bit 16 (ucast posReg AND 0x7))"

definition encodePrintRegI :: "8 word \<Rightarrow> 8 word \<Rightarrow> 32 word" where
  "encodePrintRegI dataReg posImm =
     (let instr = (0 :: 32 word);
          printOp = findOpcodeByType ''PRINT'' TYPE_PRINT_REG True;
          instr = instr OR ucast printOp;
          instr = instr OR push_bit 12 (ucast dataReg AND 0x7)
      in instr OR push_bit 16 (ucast posImm AND 0xFF))"

definition encodePrintConst :: "8 word \<Rightarrow> 8 word \<Rightarrow> 32 word" where
  "encodePrintConst dataConst posReg =
     (let instr = (0 :: 32 word);
          printOp = findOpcodeByType ''PRINT'' TYPE_PRINT_CONST False;
          instr = instr OR ucast printOp;
          instr = instr OR push_bit 16 (ucast posReg AND 0x7)
      in instr OR push_bit 24 (ucast dataConst AND 0xFF))"

definition encodePrintConstI :: "16 word \<Rightarrow> 8 word \<Rightarrow> 32 word" where
  "encodePrintConstI dataConst posImm =
     (let instr = (0 :: 32 word);
          printOp = findOpcodeByType ''PRINT'' TYPE_PRINT_CONST True;
          instr = instr OR ucast printOp;
          instr = instr OR push_bit 16 (ucast posImm AND 0xFF)
      in instr OR push_bit 24 (ucast dataConst AND 0xFF))"

text \<open>
  \<^verbatim>\<open>std::vector<std::string> tokenize(const std::string& str)\<close>: the loop over the
  characters, with the tokens found so far and the token being read.
\<close>

fun tokenize_loop :: "string \<Rightarrow> string list \<Rightarrow> string \<Rightarrow> string list" where
  "tokenize_loop [] tokens current = (if current \<noteq> [] then tokens @ [current] else tokens)"
| "tokenize_loop (c # cs) tokens current =
     (if c = CHR '','' \<or> isspace c then
        (if current \<noteq> [] then tokenize_loop cs (tokens @ [current]) []
         else tokenize_loop cs tokens current)
      else tokenize_loop cs tokens (current @ [c]))"

definition tokenize :: "string \<Rightarrow> string list" where
  "tokenize str = tokenize_loop str [] []"

section \<open>\<^verbatim>\<open>AssemblerTool::parseInstruction\<close>\<close>

text \<open>
  The blocks of \<^verbatim>\<open>parseInstruction\<close>, each on the list of tokens. \<open>None\<close> is
  \<^verbatim>\<open>error = true; return 0;\<close>. The \<^verbatim>\<open>int\<close> results of \<^verbatim>\<open>parseRegister\<close> and \<^verbatim>\<open>parseConstant\<close>
  are narrowed to the parameter types of the encoders (\<open>word_of_int\<close>).
\<close>

definition parseLR :: "RegisterAlias list \<Rightarrow> string list \<Rightarrow> int \<Rightarrow> 32 word option" where
  "parseLR aliasTable tokens instructionNumber =
     (if length tokens \<noteq> 1 then None
      else
        let dst = parseRegister aliasTable (tokens ! 0)
        in if dst = - 1 then None
           else if instructionNumber = - 1 then None
           else Some (encodeMove (word_of_int dst) (word_of_int instructionNumber) True))"

definition parseAlu :: "RegisterAlias list \<Rightarrow> string \<Rightarrow> string list \<Rightarrow> 32 word option" where
  "parseAlu aliasTable mnem tokens =
     (let op = findOpcode mnem False in
      if length tokens = 3 then
        (let dst = parseRegister aliasTable (tokens ! 0);
             src1 = parseRegister aliasTable (tokens ! 1)
         in if dst = - 1 \<or> src1 = - 1 then None
            else
              let src2Reg = parseRegister aliasTable (tokens ! 2)
              in if src2Reg \<noteq> - 1 then
                   Some (encodeAlu op (word_of_int dst) (word_of_int src1) (word_of_int src2Reg) False)
                 else
                   let src2Const = parseConstant (tokens ! 2)
                   in if src2Const = - 1 then None
                      else Some (encodeAlu op (word_of_int dst) (word_of_int src1)
                                   (word_of_int src2Const) True))
      else if length tokens = 2 then
        (let dst = parseRegister aliasTable (tokens ! 0)
         in if dst = - 1 then None
            else
              let srcReg = parseRegister aliasTable (tokens ! 1)
              in if srcReg \<noteq> - 1 then
                   Some (encodeAlu op (word_of_int dst) (word_of_int srcReg) 0 False)
                 else
                   let srcConst = parseConstant (tokens ! 1)
                   in if srcConst = - 1 then None
                      else Some (encodeAlu op (word_of_int dst) (word_of_int srcConst) 0 True))
      else None)"

definition parseNot :: "RegisterAlias list \<Rightarrow> string list \<Rightarrow> 32 word option" where
  "parseNot aliasTable tokens =
     (if length tokens \<noteq> 1 then None
      else
        let dst = parseRegister aliasTable (tokens ! 0)
        in if dst = - 1 then None
           else
             let notOp = findOpcode ''NOT'' False
             in Some (encodeAlu notOp (word_of_int dst) 0 0 False))"

definition parseMov :: "RegisterAlias list \<Rightarrow> string list \<Rightarrow> 32 word option" where
  "parseMov aliasTable tokens =
     (if length tokens \<noteq> 2 then None
      else
        let dst = parseRegister aliasTable (tokens ! 0)
        in if dst = - 1 then None
           else
             let srcReg = parseRegister aliasTable (tokens ! 1)
             in if srcReg \<noteq> - 1 then Some (encodeMove (word_of_int dst) (word_of_int srcReg) False)
                else
                  let srcConst = parseConstant (tokens ! 1)
                  in if srcConst = - 1 then None
                     else Some (encodeMove (word_of_int dst) (word_of_int srcConst) True))"

definition parseCmp :: "RegisterAlias list \<Rightarrow> string list \<Rightarrow> 32 word option" where
  "parseCmp aliasTable tokens =
     (if length tokens \<noteq> 2 then None
      else
        let src1 = parseRegister aliasTable (tokens ! 0)
        in if src1 = - 1 then None
           else
             let src2Reg = parseRegister aliasTable (tokens ! 1)
             in if src2Reg \<noteq> - 1 then Some (encodeCmp (word_of_int src1) (word_of_int src2Reg) False)
                else
                  let src2Const = parseConstant (tokens ! 1)
                  in if src2Const = - 1 then None
                     else Some (encodeCmp (word_of_int src1) (word_of_int src2Const) True))"

text \<open>
  The branch block: a register target; otherwise a constant, and a label when the
  constant is 0 and the token is not the text \<^verbatim>\<open>0\<close>.
\<close>

definition parseBranch :: "RegisterAlias list \<Rightarrow> Label list \<Rightarrow> int \<Rightarrow> string list \<Rightarrow> 32 word option" where
  "parseBranch aliasTable symbolTable condition tokens =
     (if length tokens \<noteq> 1 then None
      else
        let targetReg = parseRegister aliasTable (tokens ! 0)
        in if targetReg \<noteq> - 1 then
             Some (encodeBranch (word_of_int condition) (word_of_int targetReg) False)
           else
             let target = parseConstant (tokens ! 0)
             in if target = 0 \<and> tokens ! 0 \<noteq> ''0'' then
                  (let target = lookupLabel symbolTable (tokens ! 0)
                   in if target < 0 then None
                      else if target < 0 \<or> target > 65535 then None
                      else Some (encodeBranch (word_of_int condition) (word_of_int target) True))
                else if target < 0 \<or> target > 65535 then None
                else Some (encodeBranch (word_of_int condition) (word_of_int target) True))"

definition parseRead :: "RegisterAlias list \<Rightarrow> string list \<Rightarrow> 32 word option" where
  "parseRead aliasTable tokens =
     (if length tokens \<noteq> 2 then None
      else
        let dst = parseRegister aliasTable (tokens ! 0)
        in if dst = - 1 then None
           else
             let addrReg = parseRegister aliasTable (tokens ! 1)
             in if addrReg \<noteq> - 1 then Some (encodeRead (word_of_int dst) (word_of_int addrReg))
                else
                  let addrImm = parseConstant (tokens ! 1)
                  in if addrImm < 0 \<or> addrImm > 65535 then None
                     else Some (encodeReadI (word_of_int dst) (word_of_int addrImm)))"

definition parseWrite :: "RegisterAlias list \<Rightarrow> string list \<Rightarrow> 32 word option" where
  "parseWrite aliasTable tokens =
     (if length tokens \<noteq> 2 then None
      else
        let dataReg = parseRegister aliasTable (tokens ! 0)
        in if dataReg = - 1 then None
           else
             let addrReg = parseRegister aliasTable (tokens ! 1)
             in if addrReg \<noteq> - 1 then Some (encodeWrite (word_of_int dataReg) (word_of_int addrReg))
                else
                  let addrImm = parseConstant (tokens ! 1)
                  in if addrImm < 0 \<or> addrImm > 65535 then None
                     else Some (encodeWriteI (word_of_int dataReg) (word_of_int addrImm)))"

definition parsePrint :: "RegisterAlias list \<Rightarrow> string list \<Rightarrow> 32 word option" where
  "parsePrint aliasTable tokens =
     (if length tokens \<noteq> 2 then None
      else
        let isAddrReg = (parseRegister aliasTable (tokens ! 0) \<noteq> - 1);
            isCodeReg = (parseRegister aliasTable (tokens ! 1) \<noteq> - 1)
        in if isAddrReg \<and> isCodeReg then
             (let addrReg = parseRegister aliasTable (tokens ! 0);
                  codeReg = parseRegister aliasTable (tokens ! 1)
              in Some (encodePrintReg (word_of_int codeReg) (word_of_int addrReg)))
           else if \<not> isAddrReg \<and> isCodeReg then
             (let addrImm = parseConstant (tokens ! 0);
                  codeReg = parseRegister aliasTable (tokens ! 1)
              in if addrImm < 0 \<or> addrImm > 255 then None
                 else Some (encodePrintRegI (word_of_int codeReg) (word_of_int addrImm)))
           else if isAddrReg \<and> \<not> isCodeReg then
             (let addrReg = parseRegister aliasTable (tokens ! 0);
                  codeConst = parseConstant (tokens ! 1)
              in if codeConst < 0 \<or> codeConst > 255 then None
                 else Some (encodePrintConst (word_of_int codeConst) (word_of_int addrReg)))
           else
             (let addrImm = parseConstant (tokens ! 0);
                  codeConst = parseConstant (tokens ! 1)
              in if addrImm < 0 \<or> addrImm > 255 \<or> codeConst < 0 \<or> codeConst > 255 then None
                 else Some (encodePrintConstI (word_of_int codeConst) (word_of_int addrImm))))"

text \<open>
  \<^verbatim>\<open>uint32_t parseInstruction(const std::string& line, bool& error, int
  instructionNumber = -1)\<close>. \<open>trimmed\<close> is the line from its first character that is
  neither a blank nor a tab; the mnemonic runs to the first blank or tab, and the
  operands start after that character.
\<close>

definition parseInstruction :: "RegisterAlias list \<Rightarrow> Label list \<Rightarrow> string \<Rightarrow> int \<Rightarrow> 32 word option" where
  "parseInstruction aliasTable symbolTable line instructionNumber =
     (let trimmed = dropWhile (\<lambda>c. c = CHR '' '' \<or> c = CHR 0x09) line in
      if trimmed = [] then Some 0
      else if trimmed ! 0 = CHR '';'' \<or> trimmed ! 0 = CHR ''#'' then Some 0
      else if isLabel trimmed then Some 0
      else
        let mnem = map toupper (takeWhile (\<lambda>c. c \<noteq> CHR '' '' \<and> c \<noteq> CHR 0x09) trimmed);
            operands = drop 1 (dropWhile (\<lambda>c. c \<noteq> CHR '' '' \<and> c \<noteq> CHR 0x09) trimmed);
            tokens = tokenize operands
        in if mnem = ''LR'' then parseLR aliasTable tokens instructionNumber
           else if mnem = ''EXIT'' then Some 0xFFFFFFFF
           else if isAluOperation mnem then parseAlu aliasTable mnem tokens
           else if mnem = ''NOT'' then parseNot aliasTable tokens
           else if mnem = ''MOV'' then parseMov aliasTable tokens
           else if mnem = ''CMP'' then parseCmp aliasTable tokens
           else
             let condition = parseBranchCondition mnem
             in if condition \<ge> 0 then parseBranch aliasTable symbolTable condition tokens
                else if mnem = ''READ'' then parseRead aliasTable tokens
                else if mnem = ''WRITE'' then parseWrite aliasTable tokens
                else if mnem = ''PRINT'' then parsePrint aliasTable tokens
                else None)"

section \<open>Vocabulary of the statements\<close>

text \<open>
  A token is a non-empty string without white space: what one \<^verbatim>\<open>%s\<close> conversion of
  \<^verbatim>\<open>sscanf\<close> reads.
\<close>

definition is_token :: "string \<Rightarrow> bool" where
  "is_token s \<longleftrightarrow> s \<noteq> [] \<and> list_all (\<lambda>c. \<not> isspace c) s"

text \<open>
  Example sources with many labels: \<open>many_labels n\<close> is \<open>n\<close> label lines with distinct
  two-letter names, \<^verbatim>\<open>aa:\<close>, \<^verbatim>\<open>ab:\<close>, ... (144 names are available).
\<close>

definition two_letter_names :: "string list" where
  "two_letter_names = concat (map (\<lambda>a. map (\<lambda>b. [a, b]) ''abcdefghijkl'') ''abcdefghijkl'')"

definition many_labels :: "nat \<Rightarrow> string list" where
  "many_labels n = map (\<lambda>nm. nm @ '':\<newline>'') (take n two_letter_names)"

section \<open>Properties of comment stripping\<close>

lemma strip_comments_head:
  "d \<noteq> CHR ''/'' \<Longrightarrow> \<exists>r. fst (strip_comments (d # ds) False) = d # r"
  by (cases ds) auto

lemma no_opener_Cons:
  "no_opener r \<Longrightarrow> c \<noteq> CHR ''/'' \<Longrightarrow> no_opener (c # r)"
  by (cases r) auto

lemma strip_comments_no_opener: "no_opener (fst (strip_comments line inMultiline))"
proof (induction line inMultiline rule: strip_comments.induct)
  case (5 c d ds)
  show ?case
  proof (cases "c = CHR ''/''")
    case False
    with 5 show ?thesis by (auto intro: no_opener_Cons)
  next
    case True
    show ?thesis
    proof (cases "d = CHR ''/'' \<or> d = CHR ''*''")
      case True
      with \<open>c = CHR ''/''\<close> 5 show ?thesis by auto
    next
      case False
      then obtain r where r: "fst (strip_comments (d # ds) False) = d # r"
        using strip_comments_head [of d ds] by auto
      with False True 5 show ?thesis by auto
    qed
  qed
qed auto

lemma strip_comments_fixed:
  "no_opener line \<Longrightarrow> strip_comments line False = (line, False)"
  by (induction line rule: no_opener.induct) auto

lemma stripComments_eq: "stripComments line inMultiline = strip_comments line inMultiline"
  by (induction line inMultiline rule: strip_comments.induct) auto

text \<open>
  C7. Comment stripping is idempotent: whatever the line and the block-comment state the
  first pass starts in, stripping its output again, starting outside a block comment,
  returns that output unchanged and stays outside a block comment. This holds for the C
  \<^verbatim>\<open>strip_comments\<close> and for the C++ \<^verbatim>\<open>stripComments\<close>.
\<close>

theorem strip_comments_idempotent:
  "strip_comments (fst (strip_comments line inMultiline)) False
     = (fst (strip_comments line inMultiline), False)
   \<and> stripComments (fst (stripComments line inMultiline)) False
     = (fst (stripComments line inMultiline), False)"
  by (simp add: stripComments_eq strip_comments_fixed strip_comments_no_opener)

section \<open>Words and bit fields\<close>




lemma low_half: "(x :: 32 word) AND 0xFFFF = take_bit 16 x"
  by (simp add: take_bit_eq_mask mask_eq_exp_minus_1)

lemma ucast_high_half:
  "(ucast (drop_bit 16 (w :: 32 word) AND 0xFFFF) :: 16 word) = ucast (drop_bit 16 w)"
  by (rule bit_word_eqI) (auto simp add: bit_simps low_half)

lemma ucast_low_half: "(ucast ((w :: 32 word) AND 0xFFFF) :: 16 word) = ucast w"
  unfolding low_half by (rule bit_word_eqI) (auto simp add: bit_simps)

lemma uint8_not_neg1: "uint (a :: 8 word) \<noteq> - 1"
proof -
  have "0 \<le> uint a" by simp
  then show ?thesis by arith
qed


lemma uint16_le: "(uint (w :: 16 word) > 65535) = False"
  using uint_bounded [of w] by simp



section \<open>The two banks\<close>

lemma store_loop_length:
  "length (foldl (\<lambda>rom i. rom[i := f i]) rom [0..<n]) = length rom"
  by (induction n) simp_all

lemma store_loop_nth:
  "a < length rom \<Longrightarrow>
   foldl (\<lambda>rom i. rom[i := f i]) rom [0..<n] ! a = (if a < n then f a else rom ! a)"
  by (induction n) (auto simp add: store_loop_length nth_list_update less_Suc_eq)

lemma pass2_length:
  "length instructions \<le> MAX_INSTR
   \<Longrightarrow> length (fst (pass2 parse script symTable inMultiline instructions warnings)) \<le> MAX_INSTR"
proof (induction script arbitrary: inMultiline instructions warnings)
  case Nil
  then show ?case by simp
next
  case (Cons line rest)
  show ?case
  proof (cases "length instructions < MAX_INSTR")
    case False
    with Cons.prems show ?thesis by simp
  next
    case True
    then have "length (instructions @ [w]) \<le> MAX_INSTR" for w by simp
    with True Cons.prems Cons.IH show ?thesis
      by (auto simp add: Let_def split: option.splits)
  qed
qed

text \<open>
  C8. The program that pass 2 of the 32-bit assembler stores never has more than 256
  words. For every array of instruction words and every address \<open>a\<close> below 256, the
  ALPHA bank at \<open>a\<close> is bits 16 to 31 of word \<open>a\<close> and the BETA bank at \<open>a\<close> is bits 0
  to 15 of word \<open>a\<close> when \<open>a\<close> is below the instruction count, and both are 0 at every
  address from the instruction count on. The same holds for \<open>alphaData\<close> and \<open>betaData\<close>
  of the C++ tool.
\<close>

theorem split_bank_invariant:
  assumes "a < 256"
  shows "length (fst (lsasm_v2_pass2 script)) \<le> 256
     \<and> length (alpha_rom instructions) = 256 \<and> length (beta_rom instructions) = 256
     \<and> alpha_rom instructions ! a
         = (if a < length instructions then ucast (drop_bit 16 (instructions ! a)) else 0)
     \<and> beta_rom instructions ! a
         = (if a < length instructions then ucast (instructions ! a) else 0)
     \<and> alphaData instructions ! a
         = (if a < length instructions then ucast (drop_bit 16 (instructions ! a)) else 0)
     \<and> betaData instructions ! a
         = (if a < length instructions then ucast (instructions ! a) else 0)"
proof -
  have "length (fst (lsasm_v2_pass2 script)) \<le> MAX_INSTR"
    unfolding lsasm_v2_pass2_def by (rule pass2_length) simp
  then have "length (fst (lsasm_v2_pass2 script)) \<le> 256" by (simp add: MAX_INSTR_def)
  with assms show ?thesis
    by (simp add: alpha_rom_def beta_rom_def alphaData_def betaData_def store_loop_length
        store_loop_nth ucast_high_half ucast_low_half)
qed

theorem split_bank_invariant_witness:
  "(3::nat) < 256
   \<and> alpha_rom [0, 0, 0, 0xDEADBEEF] ! 3 = 0xDEAD \<and> beta_rom [0, 0, 0, 0xDEADBEEF] ! 3 = 0xBEEF
   \<and> alphaData [0, 0, 0, 0xDEADBEEF] ! 3 = 0xDEAD \<and> betaData [0, 0, 0, 0xDEADBEEF] ! 3 = 0xBEEF"
  using split_bank_invariant [of 3 "[]" "[0, 0, 0, 0xDEADBEEF]"] by simp

section \<open>The symbol table\<close>

lemma lookup_append_found:
  "symbol_table_lookup t nm \<noteq> - 1
   \<Longrightarrow> symbol_table_lookup (t @ rest) nm = symbol_table_lookup t nm"
  by (induction t) auto

lemma lookup_append_missing:
  "symbol_table_lookup t nm = - 1
   \<Longrightarrow> symbol_table_lookup (t @ rest) nm = symbol_table_lookup rest nm"
  by (induction t) (auto simp add: uint8_not_neg1 split: if_splits)

text \<open>
  C9. A label name that is defined twice is stored twice and resolves to its first
  definition. Let the table have room for the entries concerned (the capacity is the
  subject of C10), let the name fit the 31 characters of the field, and let it be new.
  Then \<^verbatim>\<open>symbol_table_add\<close> accepts the first definition (it returns 0), accepts the second
  one after any entries \<open>mid\<close> stored in between, the table then holds both entries, and
  \<^verbatim>\<open>symbol_table_lookup\<close> returns the address of the first, also after any later entries.
\<close>

theorem duplicate_labels_first_wins:
  assumes room: "length table + length mid + 2 \<le> max_labels"
    and fits: "length nm \<le> 31"
    and fresh: "symbol_table_lookup table nm = - 1"
  shows "symbol_table_add max_labels table nm a1
           = (table @ [\<lparr>name = nm, address = a1\<rparr>], 0)
       \<and> symbol_table_add max_labels (table @ [\<lparr>name = nm, address = a1\<rparr>] @ mid) nm a2
           = (table @ [\<lparr>name = nm, address = a1\<rparr>] @ mid @ [\<lparr>name = nm, address = a2\<rparr>], 0)
       \<and> symbol_table_lookup
             (table @ [\<lparr>name = nm, address = a1\<rparr>] @ mid @ [\<lparr>name = nm, address = a2\<rparr>] @ later) nm
           = uint a1"
  using assms by (simp add: symbol_table_add_def lookup_append_missing)

section \<open>The two passes count the same lines\<close>

lemma parse_instruction_skips:
  "dropWhile isspace line = [] \<or> is_label (dropWhile isspace line)
   \<Longrightarrow> parse_instruction line symTable = Some 0"
  by (auto simp add: parse_instruction_def Let_def)

lemma parse_instruction_v2_skips:
  "dropWhile isspace line = [] \<or> is_label (dropWhile isspace line)
   \<Longrightarrow> parse_instruction_v2 line symTable = Some 0"
  by (auto simp add: parse_instruction_v2_def Let_def)

lemma pass_counts:
  assumes skips: "\<And>line tab. dropWhile isspace line = [] \<or> is_label (dropWhile isspace line)
                    \<Longrightarrow> parse line tab \<noteq> None"
  shows "fst (snd (pass1 max_labels script inMultiline pc symTable)) < MAX_INSTR
     \<Longrightarrow> pc = length instructions + length warnings
     \<Longrightarrow> length (fst (pass2 parse script symTable2 inMultiline instructions warnings))
           + length (snd (pass2 parse script symTable2 inMultiline instructions warnings))
         = fst (snd (pass1 max_labels script inMultiline pc symTable))"
proof (induction script arbitrary: inMultiline pc symTable instructions warnings)
  case Nil
  then show ?case by simp
next
  case (Cons line rest)
  let ?stripped = "fst (strip_comments line inMultiline)"
  let ?im = "snd (strip_comments line inMultiline)"
  let ?linePtr = "dropWhile isspace ?stripped"
  have pc: "pc < MAX_INSTR"
  proof (rule ccontr)
    assume "\<not> pc < MAX_INSTR"
    with Cons.prems(1) show False by simp
  qed
  with Cons.prems(2) have len: "length instructions < MAX_INSTR" by simp
  show ?case
  proof (cases "?linePtr = []")
    case True
    then obtain instr where p: "parse ?stripped symTable2 = Some instr"
      using skips [of ?stripped symTable2] by auto
    have p1: "pass1 max_labels (line # rest) inMultiline pc symTable
                = pass1 max_labels rest ?im pc symTable"
      using pc True by (simp add: Let_def)
    have p2: "pass2 parse (line # rest) symTable2 inMultiline instructions warnings
                = pass2 parse rest symTable2 ?im instructions warnings"
      using len True p by (simp add: Let_def)
    show ?thesis
      using Cons.prems Cons.IH [of ?im pc symTable instructions warnings]
      unfolding p1 p2 by simp
  next
    case nonblank: False
    show ?thesis
    proof (cases "is_label ?linePtr")
      case True
      then obtain instr where p: "parse ?stripped symTable2 = Some instr"
        using skips [of ?stripped symTable2] by auto
      let ?tab = "fst (symbol_table_add max_labels symTable (parse_label ?linePtr) (of_nat pc))"
      have p1: "pass1 max_labels (line # rest) inMultiline pc symTable
                  = pass1 max_labels rest ?im pc ?tab"
        using pc True nonblank by (auto simp add: Let_def)
      have p2: "pass2 parse (line # rest) symTable2 inMultiline instructions warnings
                  = pass2 parse rest symTable2 ?im instructions warnings"
        using len True p by (simp add: Let_def)
      show ?thesis
        using Cons.prems Cons.IH [of ?im pc ?tab instructions warnings]
        unfolding p1 p2 by simp
    next
      case False
      have p1: "pass1 max_labels (line # rest) inMultiline pc symTable
                  = pass1 max_labels rest ?im (pc + 1) symTable"
        using pc False nonblank by (auto simp add: Let_def)
      show ?thesis
      proof (cases "parse ?stripped symTable2")
        case None
        have p2: "pass2 parse (line # rest) symTable2 inMultiline instructions warnings
                    = pass2 parse rest symTable2 ?im instructions (warnings @ [?stripped])"
          using len None by (simp add: Let_def)
        show ?thesis
          using Cons.prems Cons.IH [of ?im "pc + 1" symTable instructions "warnings @ [?stripped]"]
          unfolding p1 p2 by simp
      next
        case (Some instr)
        have p2: "pass2 parse (line # rest) symTable2 inMultiline instructions warnings
                    = pass2 parse rest symTable2 ?im (instructions @ [instr]) warnings"
          using len Some False nonblank by (auto simp add: Let_def)
        show ?thesis
          using Cons.prems Cons.IH [of ?im "pc + 1" symTable "instructions @ [instr]" warnings]
          unfolding p1 p2 by simp
      qed
    qed
  qed
qed

lemma pass1_table_bound:
  "length symTable \<le> max_labels
   \<Longrightarrow> length (snd (snd (pass1 max_labels script inMultiline pc symTable))) \<le> max_labels"
proof (induction script arbitrary: inMultiline pc symTable)
  case Nil
  then show ?case by simp
next
  case (Cons line rest)
  have "length (fst (symbol_table_add max_labels symTable nm addr)) \<le> max_labels" for nm addr
    using Cons.prems by (simp add: symbol_table_add_def)
  with Cons.prems Cons.IH show ?case
    by (simp add: Let_def)
qed

section \<open>Tokens, numerals and branch lines\<close>

lemma token_dropWhile: "is_token t \<Longrightarrow> dropWhile isspace t = t"
  by (cases t) (auto simp add: is_token_def)

lemma token_takeWhile: "is_token t \<Longrightarrow> takeWhile (\<lambda>c. \<not> isspace c) t = t"
  by (auto simp add: is_token_def list_all_iff)

lemma token_sscanf: "is_token t \<Longrightarrow> sscanf_s (Suc n) t ! 0 = t \<and> length (sscanf_s (Suc 0) t) = 1"
  by (auto simp add: token_dropWhile token_takeWhile Let_def is_token_def)

lemma space_is_space: "isspace (CHR '' '')"
  by (simp add: isspace_def)

lemma token_line_take:
  "is_token m \<Longrightarrow> takeWhile (\<lambda>c. \<not> isspace c) (m @ CHR '' '' # t) = m"
  by (simp add: is_token_def list_all_iff takeWhile_append2 space_is_space)

lemma token_line_drop:
  "is_token m \<Longrightarrow> dropWhile (\<lambda>c. \<not> isspace c) (m @ CHR '' '' # t) = CHR '' '' # t"
  by (simp add: is_token_def list_all_iff dropWhile_append2 space_is_space)

lemma token_line_start:
  "is_token m \<Longrightarrow> dropWhile isspace (m @ CHR '' '' # t) = m @ CHR '' '' # t"
  by (cases m) (auto simp add: is_token_def)

lemma no_colon_no_label:
  assumes "CHR '':'' \<notin> set line"
  shows "\<not> is_label line"
proof -
  have a: "CHR '':'' \<notin> set (dropWhile isspace line)"
    using assms by (blast dest: set_dropWhileD)
  show ?thesis
    unfolding is_label_def Let_def by (simp only: a if_True if_False simp_thms if_cancel)
qed

lemma branch_mnemonics_all:
  "\<forall>x \<in> set branch_mnemonics.
     is_token (fst x) \<and> map toupper (fst x) = fst x \<and> c_at (fst x) 0 = CHR ''B''
     \<and> CHR '':'' \<notin> set (fst x) \<and> map_of branch_mnemonics (fst x) = Some (snd x)"
  unfolding branch_mnemonics_def
  by (simp add: is_token_def isspace_def toupper_def c_at_def)

lemma branch_mnemonic_token:
  "(m, cond) \<in> set branch_mnemonics \<Longrightarrow> is_token m"
  using branch_mnemonics_all by fastforce

lemma branch_mnemonic_upper:
  "(m, cond) \<in> set branch_mnemonics \<Longrightarrow> map toupper m = m"
  using branch_mnemonics_all by fastforce

lemma branch_mnemonic_head:
  "(m, cond) \<in> set branch_mnemonics \<Longrightarrow> c_at m 0 = CHR ''B''"
  using branch_mnemonics_all by fastforce

lemma branch_mnemonic_colon:
  "(m, cond) \<in> set branch_mnemonics \<Longrightarrow> CHR '':'' \<notin> set m"
  using branch_mnemonics_all by fastforce

lemma branch_mnemonic_map_of:
  "(m, cond) \<in> set branch_mnemonics \<Longrightarrow> map_of branch_mnemonics m = Some cond"
  using branch_mnemonics_all by fastforce

lemma head_B: "c_at m 0 = CHR ''B'' \<Longrightarrow> \<exists>r. m = CHR ''B'' # r"
  by (cases m) (auto simp add: c_at_def split: if_splits)

lemma parse_instruction_branch:
  assumes m: "(m, cond) \<in> set branch_mnemonics" and t: "is_token t" and c: "CHR '':'' \<notin> set t"
  shows "parse_instruction (m @ CHR '' '' # t) symTable = parse_b m t symTable"
proof -
  let ?line = "m @ CHR '' '' # t"
  from m obtain r where r: "m = CHR ''B'' # r" using branch_mnemonic_head head_B by blast
  have tok: "is_token m" using m by (rule branch_mnemonic_token)
  have l1: "dropWhile isspace ?line = ?line" using tok by (rule token_line_start)
  have l2: "c_at ?line 0 = CHR ''B''" "c_at m 0 = CHR ''B''" by (simp_all add: r c_at_def)
  have l3: "\<not> is_label ?line"
    using branch_mnemonic_colon [OF m] c by (intro no_colon_no_label) simp
  have l4: "sscanf_s 1 ?line ! 0 = m"
    using tok by (simp add: l1 token_line_take Let_def)
  have l5: "dropWhile isspace (dropWhile (\<lambda>c. \<not> isspace c) ?line) = t"
    using tok t by (simp add: token_line_drop space_is_space token_dropWhile)
  have l6: "map toupper m = m" using m by (rule branch_mnemonic_upper)
  have l7: "m \<noteq> ''EXIT''" "m \<noteq> ''AND''" "m \<noteq> ''OR''" "m \<noteq> ''XOR''" "m \<noteq> ''NOT''" "m \<noteq> ''ADD''"
    "m \<noteq> ''SUB''" "m \<noteq> ''LSL''" "m \<noteq> ''LSR''" "m \<noteq> ''CMP''" "m \<noteq> ''MOV''" "m \<noteq> ''READ''"
    "m \<noteq> ''WRITE''" "m \<noteq> ''PRINT''"
    by (simp_all add: r)
  have ne: "?line \<noteq> []" using r by simp
  show ?thesis
    unfolding parse_instruction_def Let_def l1
    by (simp only: ne l2 l3 l4 l5 l6 l7 if_False simp_thms char.inject) simp_all
qed

lemma parse_instruction_v2_branch:
  assumes m: "(m, cond) \<in> set branch_mnemonics" and t: "is_token t" and c: "CHR '':'' \<notin> set t"
  shows "parse_instruction_v2 (m @ CHR '' '' # t) symTable = parse_branch_v2 cond t symTable"
proof -
  let ?line = "m @ CHR '' '' # t"
  from m obtain r where r: "m = CHR ''B'' # r" using branch_mnemonic_head head_B by blast
  have tok: "is_token m" using m by (rule branch_mnemonic_token)
  have l1: "dropWhile isspace ?line = ?line" using tok by (rule token_line_start)
  have l2: "c_at ?line 0 = CHR ''B''" "c_at m 0 = CHR ''B''" by (simp_all add: r c_at_def)
  have l3: "\<not> is_label ?line"
    using branch_mnemonic_colon [OF m] c by (intro no_colon_no_label) simp
  have l4: "sscanf_s 1 ?line ! 0 = m"
    using tok by (simp add: l1 token_line_take Let_def)
  have l5: "dropWhile isspace (dropWhile (\<lambda>c. \<not> isspace c) ?line) = t"
    using tok t by (simp add: token_line_drop space_is_space token_dropWhile)
  have l6: "map toupper m = m" using m by (rule branch_mnemonic_upper)
  have l7: "m \<noteq> ''EXIT''" "m \<noteq> ''AND''" "m \<noteq> ''OR''" "m \<noteq> ''XOR''" "m \<noteq> ''NOT''" "m \<noteq> ''ADD''"
    "m \<noteq> ''SUB''" "m \<noteq> ''LSL''" "m \<noteq> ''LSR''" "m \<noteq> ''CMP''" "m \<noteq> ''MOV''" "m \<noteq> ''READ''"
    "m \<noteq> ''WRITE''" "m \<noteq> ''PRINT''"
    by (simp_all add: r)
  have l8: "parse_branch_condition m = Some cond"
    using m by (simp add: parse_branch_condition_def branch_mnemonic_map_of)
  have ne: "?line \<noteq> []" using r by simp
  show ?thesis
    unfolding parse_instruction_v2_def Let_def l1
    by (simp only: ne l2 l3 l4 l5 l6 l7 l8 if_False simp_thms char.inject option.case)
qed


lemma label_start_not_digit:
  "isalpha c \<or> c = CHR ''_'' \<Longrightarrow> ((48::nat) \<le> of_char c \<and> of_char c \<le> (57::nat)) = False"
  by (auto simp add: isalpha_def)

lemma atoi_label:
  assumes t: "is_token nm" and a: "isalpha (c_at nm 0) \<or> c_at nm 0 = CHR ''_''"
  shows "atoi nm = 0"
proof -
  from t obtain c cs where nm: "nm = c # cs" by (cases nm) (auto simp add: is_token_def)
  with a have c: "isalpha c \<or> c = CHR ''_''" by (simp add: c_at_def)
  have s: "c \<noteq> CHR ''-''" "c \<noteq> CHR ''+''" using c by (auto simp add: isalpha_def)
  have d: "strtol_digits 10 0 (c # cs) = 0"
    using c by (auto simp add: digit_value_def isalpha_def Let_def)
  have c0: "c_at nm 0 = c" by (simp add: nm c_at_def)
  have st: "strtol nm 10 = strtol_digits 10 0 nm"
    unfolding strtol_def Let_def token_dropWhile [OF t] c0 using s by simp
  have "atoi nm = strtol_digits 10 0 nm" by (simp only: atoi_def st)
  also have "\<dots> = 0" using d by (simp only: nm)
  finally show ?thesis .
qed



lemma token_scan1: "is_token t \<Longrightarrow> sscanf_s 1 t = [t]"
  by (simp add: token_dropWhile token_takeWhile Let_def is_token_def)

lemma parse_b_label:
  assumes m: "(m, cond) \<in> set branch_mnemonics" and t: "is_token nm"
    and a: "isalpha (c_at nm 0) \<or> c_at nm 0 = CHR ''_''"
  shows "parse_b m nm symTable =
     (if symbol_table_lookup symTable nm < 0 \<or> symbol_table_lookup symTable nm > 255 then None
      else Some (encode_b (branch_condition_val cond) (word_of_int (symbol_table_lookup symTable nm))))"
  unfolding parse_b_def Let_def token_scan1 [OF t] branch_mnemonic_map_of [OF m]
  by (simp add: label_start_not_digit [OF a])



lemma label_start_chars:
  "isalpha c \<or> c = CHR ''_'' \<Longrightarrow> c \<noteq> CHR ''0''"
  by (auto simp add: isalpha_def)


lemma parse_branch_v2_label:
  assumes t: "is_token nm"
    and a: "isalpha (c_at nm 0) \<or> c_at nm 0 = CHR ''_''"
    and x: "c_at nm 0 \<noteq> CHR ''X''" "c_at nm 0 \<noteq> CHR ''x''"
  shows "parse_branch_v2 cond nm symTable =
     (if symbol_table_lookup symTable nm < 0 then None
      else Some (encode_branch (branch_condition_val cond)
                   (word_of_int (symbol_table_lookup symTable nm)) 1))"
  unfolding parse_branch_v2_def Let_def token_scan1 [OF t]
  using x label_start_chars [OF a] by (simp add: uint16_le atoi_label [OF t a])




section \<open>Branch lines in the C++ tool\<close>




lemma blank_is_space: "c = CHR '' '' \<or> c = CHR 0x09 \<Longrightarrow> isspace c"
  by (auto simp add: isspace_def)













text \<open>
  Witness for C9: \<^verbatim>\<open>loop\<close> defined at addresses 0 and 2 with \<^verbatim>\<open>end\<close> in between, and
  the source \<^verbatim>\<open>loop: / EXIT / loop: / B loop\<close>, whose table holds \<^verbatim>\<open>loop\<close> twice and
  whose branch goes to address 0.
\<close>

theorem duplicate_labels_first_wins_witness:
  "length ([] :: SymbolTable) + length [\<lparr>name = ''end'', address = 1\<rparr>] + 2 \<le> MAX_LABELS
   \<and> length ''loop'' \<le> 31
   \<and> symbol_table_lookup [] ''loop'' = - 1
   \<and> symbol_table_add MAX_LABELS [] ''loop'' 0 = ([\<lparr>name = ''loop'', address = 0\<rparr>], 0)
   \<and> symbol_table_add MAX_LABELS
         [\<lparr>name = ''loop'', address = 0\<rparr>, \<lparr>name = ''end'', address = 1\<rparr>] ''loop'' 2
       = ([\<lparr>name = ''loop'', address = 0\<rparr>, \<lparr>name = ''end'', address = 1\<rparr>,
           \<lparr>name = ''loop'', address = 2\<rparr>], 0)
   \<and> symbol_table_lookup
         [\<lparr>name = ''loop'', address = 0\<rparr>, \<lparr>name = ''end'', address = 1\<rparr>,
          \<lparr>name = ''loop'', address = 2\<rparr>] ''loop'' = 0
   \<and> lsasm_symTable [''loop:'', ''EXIT'', ''loop:'', ''B loop'']
       = [\<lparr>name = ''loop'', address = 0\<rparr>, \<lparr>name = ''loop'', address = 1\<rparr>]
   \<and> lsasm_main [''loop:'', ''EXIT'', ''loop:'', ''B loop''] = ([0x000F, 0x000A], [])"
proof -
  have room: "length ([] :: SymbolTable) + length [\<lparr>name = ''end'', address = 1\<rparr>] + 2 \<le> MAX_LABELS"
    by (simp add: MAX_LABELS_def)
  have fits: "length ''loop'' \<le> 31" by simp
  have fresh: "symbol_table_lookup [] ''loop'' = - 1" by simp
  have run: "lsasm_symTable [''loop:'', ''EXIT'', ''loop:'', ''B loop'']
       = [\<lparr>name = ''loop'', address = 0\<rparr>, \<lparr>name = ''loop'', address = 1\<rparr>]
   \<and> lsasm_main [''loop:'', ''EXIT'', ''loop:'', ''B loop''] = ([0x000F, 0x000A], [])"
    by code_simp
  show ?thesis
    using room fits fresh run
      duplicate_labels_first_wins [OF room fits fresh, of 0 2 "[]"]
    by simp
qed

section \<open>Lines that should fail and do not\<close>

text \<open>
  C1 (the code departs from the claim). \<^verbatim>\<open>MOV X0, 70000\<close> is not rejected by either C
  assembler. \<^verbatim>\<open>parse_constant\<close> returns \<^verbatim>\<open>-1\<close> through an unsigned type and the \<^verbatim>\<open>MOV\<close>
  block does not test it: \<^verbatim>\<open>lsasm.c\<close> stores \<^verbatim>\<open>0xFF88\<close> (\<^verbatim>\<open>MOV X0, 255\<close>) and
  \<^verbatim>\<open>lsasm_v2.c\<close> stores \<^verbatim>\<open>0xFFFF0021\<close> (\<^verbatim>\<open>MOV X0, 65535\<close>), with no warning. The
  C++ tool, whose \<^verbatim>\<open>parseConstant\<close> returns an \<^verbatim>\<open>int\<close>, rejects the line.
\<close>

theorem mov_out_of_range_constant_is_encoded:
  "parse_constant ''70000'' = 255
   \<and> parse_instruction ''MOV X0, 70000'' [] = Some 0xFF88
   \<and> lsasm_main [''MOV X0, 70000\<newline>'', ''EXIT\<newline>''] = ([0xFF88, 0x000F], [])
   \<and> parse_constant_v2 ''70000'' = 0xFFFF
   \<and> parse_instruction_v2 ''MOV X0, 70000'' [] = Some 0xFFFF0021
   \<and> lsasm_v2_pass2 [''MOV X0, 70000\<newline>'', ''EXIT\<newline>''] = ([0xFFFF0021, 0x0000FFFF], [])
   \<and> parseInstruction [] [] ''MOV X0, 70000'' 0 = None"
  by code_simp

text \<open>
  C2 (the code departs from the claim). \<^verbatim>\<open>ADD X9, X1, X2\<close> is not rejected by either C
  assembler. \<^verbatim>\<open>parse_register\<close> returns \<^verbatim>\<open>-1\<close> as 255, the ALU parser does not test
  it, and the encoder keeps the low 3 bits: the word stored is that of
  \<^verbatim>\<open>ADD X7, X1, X2\<close>, with no warning. The C++ tool, whose \<^verbatim>\<open>parseRegister\<close> returns an
  \<^verbatim>\<open>int\<close>, rejects the line.
\<close>

theorem out_of_range_register_is_encoded:
  "parse_register ''X9,'' = 255
   \<and> parse_instruction ''ADD X9, X1, X2'' [] = Some 0x2174
   \<and> parse_instruction ''ADD X7, X1, X2'' [] = Some 0x2174
   \<and> lsasm_main [''ADD X9, X1, X2\<newline>'', ''EXIT\<newline>''] = ([0x2174, 0x000F], [])
   \<and> parse_instruction_v2 ''ADD X9, X1, X2'' [] = Some 0x00021704
   \<and> parse_instruction_v2 ''ADD X7, X1, X2'' [] = Some 0x00021704
   \<and> lsasm_v2_pass2 [''ADD X9, X1, X2\<newline>'', ''EXIT\<newline>''] = ([0x00021704, 0x0000FFFF], [])
   \<and> parseInstruction [] [] ''ADD X9, X1, X2'' 0 = None"
  by code_simp

text \<open>
  C5 (the code departs from the claim). A line that starts with \<^verbatim>\<open>;\<close> or \<^verbatim>\<open>#\<close> is
  counted by pass 1 like an instruction, and pass 2 stores the word 0 for it:
  \<^verbatim>\<open>parse_instruction\<close> returns 0 without an error for such a line, and \<^verbatim>\<open>main\<close> then
  stores what it returned because the line is neither blank nor a label.
\<close>

theorem comment_marker_line_counted_and_emitted:
  "parse_instruction ''; set up\<newline>'' [] = Some 0
   \<and> lsasm_pc [''; set up\<newline>'', ''EXIT\<newline>''] = 2
   \<and> lsasm_main [''; set up\<newline>'', ''EXIT\<newline>''] = ([0x0000, 0x000F], [])
   \<and> lsasm_pc [''# set up\<newline>'', ''EXIT\<newline>''] = 2
   \<and> lsasm_main [''# set up\<newline>'', ''EXIT\<newline>''] = ([0x0000, 0x000F], [])
   \<and> lsasm_v2_pc [''; set up\<newline>'', ''EXIT\<newline>''] = 2
   \<and> lsasm_v2_pass2 [''; set up\<newline>'', ''EXIT\<newline>''] = ([0x00000000, 0x0000FFFF], [])"
  by code_simp

section \<open>The count of pass 1 and the length of the program\<close>

text \<open>
  C4, as stated, fails: a line that pass 2 rejects was counted by pass 1. For the source
  \<^verbatim>\<open>MOV X1, 5 / FOO / EXIT\<close> pass 1 counts 3 and the program has 2 words.
\<close>

theorem rejected_line_counted_by_pass1:
  "lsasm_pc [''MOV X1, 5\<newline>'', ''FOO\<newline>'', ''EXIT\<newline>''] = 3
   \<and> lsasm_main [''MOV X1, 5\<newline>'', ''FOO\<newline>'', ''EXIT\<newline>''] = ([0x0598, 0x000F], [''FOO\<newline>''])
   \<and> lsasm_v2_pc [''MOV X1, 5\<newline>'', ''FOO\<newline>'', ''EXIT\<newline>''] = 3
   \<and> lsasm_v2_pass2 [''MOV X1, 5\<newline>'', ''FOO\<newline>'', ''EXIT\<newline>'']
       = ([0x00050121, 0x0000FFFF], [''FOO\<newline>''])"
  by code_simp

text \<open>
  C4, amended. For every source whose pass-1 count stays below the cap \<^verbatim>\<open>MAX_INSTR\<close>, the
  count of pass 1 equals the length of the program that pass 2 stores plus the number of
  lines that pass 2 rejects with a warning; so the two are equal exactly when no line is
  rejected. This holds for \<^verbatim>\<open>lsasm.c\<close> and for \<^verbatim>\<open>lsasm_v2.c\<close>.
\<close>

theorem pass1_count_is_program_plus_rejected:
  "(lsasm_pc script < MAX_INSTR \<longrightarrow>
      lsasm_pc script = length (fst (lsasm_main script)) + length (snd (lsasm_main script)))
   \<and> (lsasm_v2_pc script < MAX_INSTR \<longrightarrow>
      lsasm_v2_pc script
        = length (fst (lsasm_v2_pass2 script)) + length (snd (lsasm_v2_pass2 script)))"
proof -
  have a: "parse_instruction line tab \<noteq> None"
    if "dropWhile isspace line = [] \<or> is_label (dropWhile isspace line)" for line tab
    using parse_instruction_skips [OF that] by simp
  have b: "parse_instruction_v2 line tab \<noteq> None"
    if "dropWhile isspace line = [] \<or> is_label (dropWhile isspace line)" for line tab
    using parse_instruction_v2_skips [OF that] by simp
  show ?thesis
    unfolding lsasm_pc_def lsasm_main_def lsasm_v2_pc_def lsasm_v2_pass2_def
    using pass_counts [of parse_instruction MAX_LABELS script False 0 symbol_table_init "[]" "[]", OF a]
      pass_counts [of parse_instruction_v2 MAX_LABELS_v2 script False 0 "[]" "[]" "[]", OF b]
    by simp
qed

theorem pass1_count_is_program_plus_rejected_witness:
  "lsasm_pc [''start:\<newline>'', ''MOV X1, 5\<newline>'', ''FOO\<newline>'', ''B start\<newline>''] < MAX_INSTR
   \<and> lsasm_pc [''start:\<newline>'', ''MOV X1, 5\<newline>'', ''FOO\<newline>'', ''B start\<newline>''] = 3
   \<and> length (fst (lsasm_main [''start:\<newline>'', ''MOV X1, 5\<newline>'', ''FOO\<newline>'', ''B start\<newline>''])) = 2
   \<and> length (snd (lsasm_main [''start:\<newline>'', ''MOV X1, 5\<newline>'', ''FOO\<newline>'', ''B start\<newline>''])) = 1
   \<and> lsasm_v2_pc [''start:\<newline>'', ''MOV X1, 5\<newline>'', ''FOO\<newline>'', ''B start\<newline>''] < MAX_INSTR
   \<and> lsasm_v2_pc [''start:\<newline>'', ''MOV X1, 5\<newline>'', ''FOO\<newline>'', ''B start\<newline>'']
       = length (fst (lsasm_v2_pass2 [''start:\<newline>'', ''MOV X1, 5\<newline>'', ''FOO\<newline>'', ''B start\<newline>'']))
         + length (snd (lsasm_v2_pass2 [''start:\<newline>'', ''MOV X1, 5\<newline>'', ''FOO\<newline>'', ''B start\<newline>'']))"
proof -
  let ?s = "[''start:\<newline>'', ''MOV X1, 5\<newline>'', ''FOO\<newline>'', ''B start\<newline>'']"
  have pc: "lsasm_pc ?s = 3" "lsasm_v2_pc ?s = 3" by code_simp+
  have m: "fst (lsasm_main ?s) = [0x0598, 0x000A]" by code_simp
  have cap: "lsasm_pc ?s < MAX_INSTR" "lsasm_v2_pc ?s < MAX_INSTR"
    by (simp_all add: pc MAX_INSTR_def)
  show ?thesis
    using cap pc m pass1_count_is_program_plus_rejected [of ?s] by simp
qed

section \<open>Branches to labels and to addresses\<close>




section \<open>The capacity of the label table\<close>

text \<open>
  C10. The table that pass 1 builds never holds more than \<^verbatim>\<open>MAX_LABELS\<close> entries: 128 in
  the 16-bit assembler, below the instruction capacity 256, and 256 in the 32-bit one.
  When the table is full, \<^verbatim>\<open>symbol_table_add\<close> leaves it as it is and only returns \<^verbatim>\<open>-1\<close>,
  which pass 1 drops, so nothing is reported. If the name is not among the entries
  stored, a later branch to it is rejected by \<^verbatim>\<open>parse_instruction\<close> (in the 32-bit
  assembler for a name that does not start with \<^verbatim>\<open>X\<close> or \<^verbatim>\<open>x\<close>, which would be read as
  a register).
\<close>

theorem label_table_bounded_and_silent:
  assumes full: "length table \<ge> max_labels"
    and absent: "symbol_table_lookup table nm = - 1"
    and m: "(m, cond) \<in> set branch_mnemonics"
    and nm: "is_token nm" "isalpha (c_at nm 0) \<or> c_at nm 0 = CHR ''_''" "CHR '':'' \<notin> set nm"
  shows "length (lsasm_symTable script) \<le> MAX_LABELS \<and> MAX_LABELS = 128 \<and> MAX_LABELS < MAX_INSTR
     \<and> length (lsasm_v2_symTable script) \<le> MAX_LABELS_v2 \<and> MAX_LABELS_v2 = 256
     \<and> MAX_LABELS_v2 \<le> MAX_INSTR
     \<and> symbol_table_add max_labels table nm addr = (table, - 1)
     \<and> parse_instruction (m @ '' '' @ nm) (fst (symbol_table_add max_labels table nm addr)) = None
     \<and> (c_at nm 0 \<noteq> CHR ''X'' \<and> c_at nm 0 \<noteq> CHR ''x'' \<longrightarrow>
          parse_instruction_v2 (m @ '' '' @ nm) (fst (symbol_table_add max_labels table nm addr))
            = None)"
proof -
  have b1: "length (lsasm_symTable script) \<le> MAX_LABELS"
    unfolding lsasm_symTable_def by (rule pass1_table_bound) (simp add: symbol_table_init_def)
  have b2: "length (lsasm_v2_symTable script) \<le> MAX_LABELS_v2"
    unfolding lsasm_v2_symTable_def by (rule pass1_table_bound) simp
  have add: "symbol_table_add max_labels table nm addr = (table, - 1)"
    using full by (simp add: symbol_table_add_def)
  have p16: "parse_instruction (m @ '' '' @ nm) table = None"
    using absent by (simp add: parse_instruction_branch [OF m nm(1) nm(3)] parse_b_label [OF m nm(1) nm(2)])
  have p32: "parse_instruction_v2 (m @ '' '' @ nm) table = None"
    if "c_at nm 0 \<noteq> CHR ''X''" "c_at nm 0 \<noteq> CHR ''x''"
    using absent
    by (simp add: parse_instruction_v2_branch [OF m nm(1) nm(3)] parse_branch_v2_label [OF nm(1) nm(2) that])
  show ?thesis
    using b1 b2 p16 p32 by (simp add: add MAX_LABELS_def MAX_LABELS_v2_def MAX_INSTR_def)
qed

text \<open>
  Witness for C10: after 128 label lines the table of the 16-bit assembler is full and
  does not hold \<^verbatim>\<open>ki\<close>, the 129th name. With 129 label lines followed by \<^verbatim>\<open>B ki\<close> the
  branch is rejected although \<^verbatim>\<open>ki:\<close> is in the source; with 128 label lines the branch
  to the 128th name \<^verbatim>\<open>kh\<close> is assembled.
\<close>

theorem label_table_bounded_and_silent_witness:
  "length (lsasm_symTable (many_labels 128)) \<ge> MAX_LABELS
   \<and> symbol_table_lookup (lsasm_symTable (many_labels 128)) ''ki'' = - 1
   \<and> (''B'', B_UNCOND) \<in> set branch_mnemonics
   \<and> is_token ''ki'' \<and> (isalpha (c_at ''ki'' 0) \<or> c_at ''ki'' 0 = CHR ''_'')
   \<and> CHR '':'' \<notin> set ''ki''
   \<and> symbol_table_add MAX_LABELS (lsasm_symTable (many_labels 128)) ''ki'' 0
       = (lsasm_symTable (many_labels 128), - 1)
   \<and> parse_instruction ''B ki'' (lsasm_symTable (many_labels 128)) = None
   \<and> parse_instruction_v2 ''B ki'' (lsasm_symTable (many_labels 128)) = None
   \<and> lsasm_symTable (many_labels 129) = lsasm_symTable (many_labels 128)
   \<and> lsasm_main (many_labels 129 @ [''B ki\<newline>'']) = ([], [''B ki\<newline>''])
   \<and> lsasm_main (many_labels 128 @ [''B kh\<newline>'']) = ([0x000A], [])"
proof -
  have full: "length (lsasm_symTable (many_labels 128)) \<ge> MAX_LABELS" by code_simp
  have absent: "symbol_table_lookup (lsasm_symTable (many_labels 128)) ''ki'' = - 1"
    by code_simp
  have m: "(''B'', B_UNCOND) \<in> set branch_mnemonics" by (simp add: branch_mnemonics_def)
  have nm: "is_token ''ki''" "isalpha (c_at ''ki'' 0) \<or> c_at ''ki'' 0 = CHR ''_''"
    "CHR '':'' \<notin> set ''ki''"
    by (simp_all add: is_token_def isspace_def isalpha_def c_at_def)
  have x: "c_at ''ki'' 0 \<noteq> CHR ''X'' \<and> c_at ''ki'' 0 \<noteq> CHR ''x''"
    by (simp add: c_at_def)
  have run: "lsasm_symTable (many_labels 129) = lsasm_symTable (many_labels 128)
     \<and> lsasm_main (many_labels 129 @ [''B ki\<newline>'']) = ([], [''B ki\<newline>''])
     \<and> lsasm_main (many_labels 128 @ [''B kh\<newline>'']) = ([0x000A], [])"
    by code_simp
  note inst = label_table_bounded_and_silent [OF full absent m nm, of "[]" 0]
  let ?T = "lsasm_symTable (many_labels 128)"
  have a: "symbol_table_add MAX_LABELS ?T ''ki'' 0 = (?T, - 1)"
    using inst by blast
  have "parse_instruction (''B'' @ '' '' @ ''ki'') (fst (symbol_table_add MAX_LABELS ?T ''ki'' 0))
          = None"
    using inst by blast
  then have b: "parse_instruction ''B ki'' ?T = None"
    by (simp add: a)
  have "parse_instruction_v2 (''B'' @ '' '' @ ''ki'')
          (fst (symbol_table_add MAX_LABELS ?T ''ki'' 0)) = None"
    using inst x by blast
  then have c: "parse_instruction_v2 ''B ki'' ?T = None"
    by (simp add: a)
  show ?thesis
    using full absent m nm run a b c by blast
qed

end
